theory Spec2Isabelle
  imports Main "HOL-Library.Word" "HOL-Library.Sublist"
begin

section \<open>pushjack.apns: the APNs binary protocol client\<close>

text \<open>
  A shallow embedding of \<^verbatim>\<open>src/pushjack/apns.py\<close> (Python 2). Byte strings are
  lists of 8-bit words, Python integers are \<open>int\<close>, exceptions are values of the type
  \<open>error\<close> returned on the left of a sum, and the socket, the clock and the certificate
  file are fields of an explicit \<open>world\<close> that every effectful function takes and
  returns.
\<close>

subsection \<open>Exceptions\<close>

type_synonym byte = "8 word"

datatype error =
    APNSError string
  | APNSDataOverflow string
  | APNSServerError int int
  | Type_error
  | Struct_error
  | Value_error
  | Socket_timeout
  | SSL_error string
  | Socket_error string

subsection \<open>Text formatting (\<^verbatim>\<open>str.format\<close> on integers)\<close>

definition digit_char :: "nat \<Rightarrow> char" where
  "digit_char d = ''0123456789'' ! d"

fun str_nat :: "nat \<Rightarrow> string" where
  "str_nat n = (if n < 10 then [digit_char n] else str_nat (n div 10) @ [digit_char (n mod 10)])"

declare str_nat.simps [simp del]

definition str_int :: "int \<Rightarrow> string" where
  "str_int i = (if i < 0 then CHR ''-'' # str_nat (nat (- i)) else str_nat (nat i))"

subsection \<open>\<^verbatim>\<open>binascii\<close>: hexadecimal text and raw bytes\<close>

text \<open>
  \<^verbatim>\<open>unhexlify\<close> accepts digits in either case and raises \<^verbatim>\<open>TypeError\<close> on an odd
  number of characters or on a character that is no hexadecimal digit.
\<close>

definition hex_val :: "char \<Rightarrow> nat option" where
  "hex_val c =
     (if c \<in> set ''0123456789'' then Some (of_char c - 48)
      else if c \<in> set ''abcdef'' then Some (of_char c - 87)
      else if c \<in> set ''ABCDEF'' then Some (of_char c - 55)
      else None)"

fun unhexlify :: "string \<Rightarrow> error + byte list" where
  "unhexlify [] = Inr []"
| "unhexlify [c] = Inl Type_error"
| "unhexlify (a # b # cs) =
     (case (hex_val a, hex_val b) of
        (Some h, Some l) \<Rightarrow>
          (case unhexlify cs of
             Inl e \<Rightarrow> Inl e
           | Inr bs \<Rightarrow> Inr (of_nat (16 * h + l) # bs))
      | _ \<Rightarrow> Inl Type_error)"

definition hex_char :: "nat \<Rightarrow> char" where
  "hex_char d = ''0123456789abcdef'' ! d"

text \<open>\<^verbatim>\<open>bytes.encode('hex')\<close>: two lower-case digits for each byte.\<close>

definition hexlify :: "byte list \<Rightarrow> string" where
  "hexlify bs = concat (map (\<lambda>b. [hex_char (unat b div 16), hex_char (unat b mod 16)]) bs)"

subsection \<open>\<^verbatim>\<open>struct\<close>: network byte order, standard sizes\<close>

text \<open>
  The format characters the module uses: \<^verbatim>\<open>B\<close> (1 byte), \<^verbatim>\<open>H\<close> (2 bytes),
  \<^verbatim>\<open>I\<close> and \<^verbatim>\<open>L\<close> (4 bytes), all unsigned, and \<^verbatim>\<open>Ns\<close> (N raw bytes).
  A format string starting with \<^verbatim>\<open>!\<close> is a list of such codes, without padding.
\<close>

datatype code = Fmt_B | Fmt_H | Fmt_I | Fmt_L | Fmt_s nat

datatype val = Num int | Bytes "byte list"

fun code_size :: "code \<Rightarrow> nat" where
  "code_size Fmt_B = 1"
| "code_size Fmt_H = 2"
| "code_size Fmt_I = 4"
| "code_size Fmt_L = 4"
| "code_size (Fmt_s n) = n"

definition calcsize :: "code list \<Rightarrow> nat" where
  "calcsize fmt = sum_list (map code_size fmt)"

text \<open>Big-endian digits: the last byte is the least significant one.\<close>

fun be_bytes :: "nat \<Rightarrow> int \<Rightarrow> byte list" where
  "be_bytes 0 n = []"
| "be_bytes (Suc k) n = be_bytes k (n div 256) @ [of_int n]"

definition be_int :: "byte list \<Rightarrow> int" where
  "be_int bs = foldl (\<lambda>a b. a * 256 + uint b) 0 bs"

text \<open>
  Packing one value: an integer out of the range of its code raises
  \<^verbatim>\<open>struct.error\<close>, as does a value of the wrong kind; \<^verbatim>\<open>Ns\<close> truncates or pads
  with zero bytes to exactly N bytes.
\<close>

fun pack_one :: "code \<Rightarrow> val \<Rightarrow> error + byte list" where
  "pack_one (Fmt_s n) (Bytes bs) = Inr (take n bs @ replicate (n - length bs) 0)"
| "pack_one (Fmt_s n) (Num i) = Inl Struct_error"
| "pack_one c (Bytes bs) = Inl Struct_error"
| "pack_one c (Num i) =
     (if 0 \<le> i \<and> i < 256 ^ code_size c then Inr (be_bytes (code_size c) i)
      else Inl Struct_error)"

fun pack :: "code list \<Rightarrow> val list \<Rightarrow> error + byte list" where
  "pack [] [] = Inr []"
| "pack (c # cs) (v # vs) =
     (case pack_one c v of
        Inl e \<Rightarrow> Inl e
      | Inr bs \<Rightarrow> (case pack cs vs of Inl e \<Rightarrow> Inl e | Inr rest \<Rightarrow> Inr (bs @ rest)))"
| "pack _ _ = Inl Struct_error"

fun unpack_one :: "code \<Rightarrow> byte list \<Rightarrow> val" where
  "unpack_one (Fmt_s n) bs = Bytes bs"
| "unpack_one c bs = Num (be_int bs)"

text \<open>The fields of a buffer that is long enough, one after the other.\<close>

fun unpack_fields :: "code list \<Rightarrow> byte list \<Rightarrow> val list" where
  "unpack_fields [] bs = []"
| "unpack_fields (c # cs) bs =
     unpack_one c (take (code_size c) bs) # unpack_fields cs (drop (code_size c) bs)"

text \<open>\<^verbatim>\<open>struct.unpack\<close> wants a buffer of exactly the size of the format.\<close>

definition unpack :: "code list \<Rightarrow> byte list \<Rightarrow> error + val list" where
  "unpack fmt data =
     (if length data = calcsize fmt then Inr (unpack_fields fmt data) else Inl Struct_error)"

text \<open>\<^verbatim>\<open>struct.unpack_from(fmt, data, 0)\<close> wants at least that many bytes.\<close>

definition unpack_from :: "code list \<Rightarrow> byte list \<Rightarrow> error + val list" where
  "unpack_from fmt data =
     (if calcsize fmt \<le> length data then Inr (unpack_fields fmt data) else Inl Struct_error)"

subsection \<open>Tokens and frames\<close>

text \<open>
  \<^verbatim>\<open>is_valid_token\<close>: both assertions and the decoding sit in one \<^verbatim>\<open>try\<close>, and any
  exception makes the token invalid. The first assertion fails on the empty result.
\<close>

definition is_valid_token :: "string \<Rightarrow> bool" where
  "is_valid_token token =
     (case unhexlify token of
        Inl e \<Rightarrow> False
      | Inr bs \<Rightarrow> if bs = [] then False else if length token \<noteq> 64 then False else True)"

definition frame_fmt :: "nat \<Rightarrow> nat \<Rightarrow> code list" where
  "frame_fmt token_len payload_len =
     [Fmt_B, Fmt_I, Fmt_B, Fmt_H, Fmt_s token_len, Fmt_B, Fmt_H, Fmt_s payload_len,
      Fmt_B, Fmt_H, Fmt_I, Fmt_B, Fmt_H, Fmt_I, Fmt_B, Fmt_H, Fmt_B]"

definition pack_frame :: "string \<Rightarrow> byte list \<Rightarrow> int \<Rightarrow> int \<Rightarrow> int \<Rightarrow> error + byte list" where
  "pack_frame token payload identifier expiration priority =
     (case unhexlify token of
        Inl e \<Rightarrow> Inl e
      | Inr token_bin \<Rightarrow>
          let token_len = length token_bin;
              payload_len = length payload;
              frame_len = 3 * 5 + token_len + payload_len + 4 + 4 + 1
          in pack (frame_fmt token_len payload_len)
               [Num 2, Num (int frame_len),
                Num 1, Num (int token_len), Bytes token_bin,
                Num 2, Num (int payload_len), Bytes payload,
                Num 3, Num 4, Num identifier,
                Num 4, Num 4, Num expiration,
                Num 5, Num 1, Num priority])"

subsection \<open>The world: configuration, socket, clock\<close>

text \<open>
  The configuration dictionary, with the keys the module reads. The timeout of a socket
  is \<open>None\<close> (blocking) or a duration; \<^verbatim>\<open>APNS_ERROR_TIMEOUT\<close> is \<open>None\<close> when the error
  check is switched off.
\<close>

type_synonym timeout = "nat option"

record config =
  APNS_HOST :: string
  APNS_PORT :: int
  APNS_FEEDBACK_HOST :: string
  APNS_FEEDBACK_PORT :: int
  APNS_CERTIFICATE :: string
  APNS_ERROR_TIMEOUT :: timeout
  APNS_MAX_NOTIFICATION_SIZE :: int
  APNS_DEFAULT_EXPIRATION_OFFSET :: int

text \<open>A connection is known by the endpoint it was opened to.\<close>

datatype connection = Connection string int

text \<open>
  What a run does to the outside, in order. \<open>Call_create_payload\<close> and
  \<open>Call_check_errors\<close> record the calls of these two functions; the others are the
  operations on the certificate file and on the socket.
\<close>

datatype event =
    Call_create_payload
  | Call_check_errors
  | Read_file string
  | Connect string int string
  | Write connection "byte list"
  | Settimeout connection timeout
  | Recv connection nat
  | Close connection

text \<open>
  What one call of \<^verbatim>\<open>recv\<close> meets: data (empty at the end of the stream),
  \<^verbatim>\<open>socket.timeout\<close>, \<^verbatim>\<open>ssl.SSLError\<close> with its message, or another socket error.
\<close>

datatype recv_result = Data "byte list" | Timed_out | SSL_failed string | Socket_failed string

fun recv_outcome :: "recv_result \<Rightarrow> error + byte list" where
  "recv_outcome (Data data) = Inr data"
| "recv_outcome Timed_out = Inl Socket_timeout"
| "recv_outcome (SSL_failed message) = Inl (SSL_error message)"
| "recv_outcome (Socket_failed message) = Inl (Socket_error message)"

text \<open>
  At most one connection is in use during a call of the module, so the world holds the
  state of that one socket: its timeout and \<open>script\<close>, the results of its coming calls of
  \<^verbatim>\<open>recv\<close>, one for each call, and empty reads for ever after. \<open>unreadable\<close> gives the
  text of the exception for a certificate file that cannot be opened or read. \<open>clock k\<close>
  is what the call number \<open>k\<close> of \<^verbatim>\<open>int(time.time())\<close> returns, and \<open>ticks\<close> counts
  the calls made.
\<close>

record world =
  unreadable :: "string \<Rightarrow> string option"
  clock :: "nat \<Rightarrow> int"
  ticks :: nat
  timeout :: timeout
  script :: "recv_result list"
  trace :: "event list"

definition time_time :: "world \<Rightarrow> int \<times> world" where
  "time_time w = (clock w (ticks w), w\<lparr>ticks := Suc (ticks w)\<rparr>)"

definition log_event :: "event \<Rightarrow> world \<Rightarrow> world" where
  "log_event e w = w\<lparr>trace := trace w @ [e]\<rparr>"

definition socket_write :: "connection \<Rightarrow> byte list \<Rightarrow> world \<Rightarrow> world" where
  "socket_write c bs w = log_event (Write c bs) w"

definition settimeout :: "connection \<Rightarrow> timeout \<Rightarrow> world \<Rightarrow> world" where
  "settimeout c t w = log_event (Settimeout c t) (w\<lparr>timeout := t\<rparr>)"

definition recv :: "connection \<Rightarrow> nat \<Rightarrow> world \<Rightarrow> (error + byte list) \<times> world" where
  "recv c n w =
     (case script w of
        [] \<Rightarrow> (Inr [], log_event (Recv c n) w)
      | r # rs \<Rightarrow> (recv_outcome r, log_event (Recv c n) (w\<lparr>script := rs\<rparr>)))"

definition close :: "connection \<Rightarrow> world \<Rightarrow> world" where
  "close c w = log_event (Close c) w"

text \<open>
  \<^verbatim>\<open>create_socket\<close>: the certificate is checked and read before the socket is made.
  The handshake, \<^verbatim>\<open>connect\<close> and \<^verbatim>\<open>write\<close> are taken to succeed; of the socket's
  operations only \<^verbatim>\<open>recv\<close> can raise here, as the two \<^verbatim>\<open>except\<close> clauses of the
  module are about it.
\<close>

definition create_socket :: "string \<Rightarrow> int \<Rightarrow> string \<Rightarrow> world \<Rightarrow> (error + connection) \<times> world" where
  "create_socket host port certfile w =
     (if certfile = [] then
        (Inl (APNSError ''Missing certificate file. Cannot send notifications.''), w)
      else
        let w1 = log_event (Read_file certfile) w in
        case unreadable w certfile of
          Some ex \<Rightarrow>
            (Inl (APNSError (''The certfile at '' @ certfile @ '' is not readable: '' @ ex)), w1)
        | None \<Rightarrow>
            (Inr (Connection host port),
             log_event (Connect host port certfile) (w1\<lparr>timeout := None\<rparr>)))"

definition create_push_socket :: "config \<Rightarrow> world \<Rightarrow> (error + connection) \<times> world" where
  "create_push_socket config w =
     create_socket (APNS_HOST config) (APNS_PORT config) (APNS_CERTIFICATE config) w"

definition create_feedback_socket :: "config \<Rightarrow> world \<Rightarrow> (error + connection) \<times> world" where
  "create_feedback_socket config w =
     create_socket (APNS_FEEDBACK_HOST config) (APNS_FEEDBACK_PORT config)
       (APNS_CERTIFICATE config) w"

subsection \<open>The error response\<close>

definition APNS_ERROR_RESPONSE_COMMAND :: int where
  "APNS_ERROR_RESPONSE_COMMAND = 8"

text \<open>\<^verbatim>\<open>'timed out' in message\<close>: the text occurs somewhere in the message.\<close>

fun contains :: "string \<Rightarrow> string \<Rightarrow> bool" where
  "contains sub [] = (sub = [])"
| "contains sub (c # cs) = (prefix sub (c # cs) \<or> contains sub cs)"

text \<open>
  Modelled from the spec: \<^verbatim>\<open>raise_apns_server_error\<close> of \<^verbatim>\<open>pushjack/exceptions.py\<close>,
  which is not part of the sources at hand. By the specification it raises the server
  error of the status code, carrying the identifier of the notification.
\<close>

definition raise_apns_server_error :: "int \<Rightarrow> int \<Rightarrow> error + unit" where
  "raise_apns_server_error status identifier = Inl (APNSServerError status identifier)"

text \<open>
  The two \<^verbatim>\<open>except\<close> clauses that \<^verbatim>\<open>check_errors\<close> and \<^verbatim>\<open>receive_feedback\<close> share:
  a socket timeout is passed over, an SSL error too when its message says so, and every
  other exception goes on.
\<close>

definition timeout_passed :: "error \<Rightarrow> bool" where
  "timeout_passed e =
     (case e of
        Socket_timeout \<Rightarrow> True
      | SSL_error message \<Rightarrow> contains ''timed out'' message
      | _ \<Rightarrow> False)"

text \<open>The body of the \<^verbatim>\<open>try\<close> of \<^verbatim>\<open>check_errors\<close>, after \<^verbatim>\<open>recv\<close>.\<close>

definition decode_response :: "byte list \<Rightarrow> error + unit" where
  "decode_response data =
     (if data \<noteq> [] then
        (case unpack [Fmt_B, Fmt_B, Fmt_I] data of
           Inl e \<Rightarrow> Inl e
         | Inr [Num command, Num status, Num identifier] \<Rightarrow>
             if command \<noteq> APNS_ERROR_RESPONSE_COMMAND then
               Inl (APNSError (''Error response command must be ''
                      @ str_int APNS_ERROR_RESPONSE_COMMAND @ ''. Found: '' @ str_int command))
             else if status \<noteq> 0 then raise_apns_server_error status identifier
             else Inr ()
         | Inr _ \<Rightarrow> Inl Value_error)
      else Inr ())"

definition check_errors :: "connection \<Rightarrow> config \<Rightarrow> world \<Rightarrow> (error + unit) \<times> world" where
  "check_errors c config w0 =
     (let w = log_event Call_check_errors w0 in
      case APNS_ERROR_TIMEOUT config of
        None \<Rightarrow> (Inr (), w)
      | Some t \<Rightarrow>
          let original_timeout = timeout w;
              w1 = settimeout c (Some t) w;
              (r, w2) = recv c 6 w1;
              tried = (case r of Inl e \<Rightarrow> Inl e | Inr data \<Rightarrow> decode_response data);
              result = (case tried of
                          Inl e \<Rightarrow> if timeout_passed e then Inr () else Inl e
                        | Inr u \<Rightarrow> Inr u)
          in (result, settimeout c original_timeout w2))"

subsection \<open>The feedback stream\<close>

definition read_and_unpack ::
  "connection \<Rightarrow> code list \<Rightarrow> world \<Rightarrow> (error + val list option) \<times> world" where
  "read_and_unpack c data_format w =
     (let len = calcsize data_format;
          (r, w1) = recv c len w
      in case r of
           Inl e \<Rightarrow> (Inl e, w1)
         | Inr data \<Rightarrow>
             if data \<noteq> [] then
               (case unpack_from data_format data of
                  Inl e \<Rightarrow> (Inl e, w1)
                | Inr vs \<Rightarrow> (Inr (Some vs), w1))
             else (Inr None, w1))"

text \<open>
  The \<^verbatim>\<open>try\<close> block in the loop of \<^verbatim>\<open>receive_feedback\<close>: it gives the new values of
  \<^verbatim>\<open>has_data\<close> and \<^verbatim>\<open>expired_tokens\<close>, or the exception raised.
\<close>

definition feedback_try ::
  "connection \<Rightarrow> (string \<times> int) list \<Rightarrow> world \<Rightarrow> (error + bool \<times> (string \<times> int) list) \<times> world" where
  "feedback_try c expired_tokens w =
     (case read_and_unpack c [Fmt_L, Fmt_H] w of
        (Inl e, w1) \<Rightarrow> (Inl e, w1)
      | (Inr None, w1) \<Rightarrow> (Inr (False, expired_tokens), w1)
      | (Inr (Some header_data), w1) \<Rightarrow>
          (case header_data of
             [Num timestamp, Num token_length] \<Rightarrow>
               (case read_and_unpack c [Fmt_s (nat token_length)] w1 of
                  (Inl e, w2) \<Rightarrow> (Inl e, w2)
                | (Inr None, w2) \<Rightarrow> (Inr (True, expired_tokens), w2)
                | (Inr (Some device_token), w2) \<Rightarrow>
                    (case device_token of
                       Bytes token_bin # _ \<Rightarrow>
                         (Inr (True, expired_tokens @ [(hexlify token_bin, timestamp)]), w2)
                     | _ \<Rightarrow> (Inl Value_error, w2)))
           | _ \<Rightarrow> (Inl Value_error, w1)))"

text \<open>One turn of the loop: the \<^verbatim>\<open>try\<close> block under its two \<^verbatim>\<open>except\<close> clauses.\<close>

definition feedback_step ::
  "connection \<Rightarrow> (string \<times> int) list \<Rightarrow> world \<Rightarrow> (error + bool \<times> (string \<times> int) list) \<times> world" where
  "feedback_step c expired_tokens w =
     (case feedback_try c expired_tokens w of
        (Inl e, w1) \<Rightarrow> if timeout_passed e then (Inr (True, expired_tokens), w1) else (Inl e, w1)
      | (Inr x, w1) \<Rightarrow> (Inr x, w1))"

lemma recv_script_le: "recv c n w = (r, w1) \<Longrightarrow> length (script w1) \<le> length (script w)"
  by (auto simp: recv_def log_event_def split: list.splits)

lemma recv_script_less:
  "recv c n w = (r, w1) \<Longrightarrow> r \<noteq> Inr [] \<Longrightarrow> length (script w1) < length (script w)"
  by (auto simp: recv_def log_event_def split: list.splits)

lemma read_and_unpack_script_le:
  "read_and_unpack c fmt w = (r, w1) \<Longrightarrow> length (script w1) \<le> length (script w)"
  by (auto simp: read_and_unpack_def Let_def dest: recv_script_le
      split: prod.splits if_splits sum.splits)

lemma read_and_unpack_script_less:
  "read_and_unpack c fmt w = (r, w1) \<Longrightarrow> r \<noteq> Inr None \<Longrightarrow>
   length (script w1) < length (script w)"
  by (auto simp: read_and_unpack_def Let_def dest: recv_script_less
      split: prod.splits if_splits sum.splits)

lemma feedback_try_script_less:
  assumes "feedback_try c acc w = (r, w1)" and "r \<noteq> Inr (False, acc)"
  shows "length (script w1) < length (script w)"
proof -
  obtain h wh where h: "read_and_unpack c [Fmt_L, Fmt_H] w = (h, wh)"
    by (cases "read_and_unpack c [Fmt_L, Fmt_H] w")
  show ?thesis
  proof (cases "h = Inr None")
    case True
    with assms h show ?thesis by (simp add: feedback_try_def)
  next
    case False
    with h have less: "length (script wh) < length (script w)"
      by (rule read_and_unpack_script_less)
    have "length (script w1) \<le> length (script wh)"
      using assms(1) h
      by (auto simp: feedback_try_def dest: read_and_unpack_script_le
          split: sum.splits option.splits list.splits val.splits prod.splits)
    with less show ?thesis by simp
  qed
qed

lemma feedback_step_script_less:
  "feedback_step c acc w = (Inr (True, acc1), w1) \<Longrightarrow> length (script w1) < length (script w)"
  by (auto simp: feedback_step_def dest: feedback_try_script_less
      split: prod.splits sum.splits if_splits)

function receive_feedback_loop ::
  "connection \<Rightarrow> (string \<times> int) list \<Rightarrow> world \<Rightarrow> (error + (string \<times> int) list) \<times> world" where
  "receive_feedback_loop c expired_tokens w =
     (case feedback_step c expired_tokens w of
        (Inl e, w1) \<Rightarrow> (Inl e, w1)
      | (Inr (has_data, expired_tokens1), w1) \<Rightarrow>
          if has_data then receive_feedback_loop c expired_tokens1 w1
          else (Inr expired_tokens1, w1))"
  by pat_completeness auto
termination
  by (relation "measure (\<lambda>(c, acc, w). length (script w))")
     (auto dest: feedback_step_script_less [OF sym])

declare receive_feedback_loop.simps [simp del]

definition receive_feedback ::
  "connection \<Rightarrow> world \<Rightarrow> (error + (string \<times> int) list) \<times> world" where
  "receive_feedback c w = receive_feedback_loop c [] w"

definition get_expired_tokens :: "config \<Rightarrow> world \<Rightarrow> (error + (string \<times> int) list) \<times> world" where
  "get_expired_tokens config w =
     (case create_feedback_socket config w of
        (Inl e, w1) \<Rightarrow> (Inl e, w1)
      | (Inr c, w1) \<Rightarrow> (let (r, w2) = receive_feedback c w1 in (r, close c w2)))"

subsection \<open>Sending\<close>

text \<open>
  \<^verbatim>\<open>create_payload\<close> serialises the alert and the keyword options through
  \<^verbatim>\<open>utils.json_dumps\<close>, which is not part of the sources at hand: the function from the
  alert to the payload bytes is the parameter \<open>create_payload\<close> of \<open>send\<close> and
  \<open>send_bulk\<close>. A connection handed in is \<open>Some c\<close>.
\<close>

definition send ::
  "(string \<Rightarrow> byte list) \<Rightarrow> string \<Rightarrow> string \<Rightarrow> config \<Rightarrow> int \<Rightarrow> int option \<Rightarrow> int \<Rightarrow>
   byte list option \<Rightarrow> connection option \<Rightarrow> world \<Rightarrow> (error + unit) \<times> world" where
  "send create_payload token alert config identifier expiration priority payload connection w =
     (if \<not> is_valid_token token then
        (Inl (APNSError ''Invalid token format. Expected 64 character hex string.''), w)
      else
        let (payload1, w1) =
              (case payload of
                 None \<Rightarrow> (create_payload alert, log_event Call_create_payload w)
               | Some p \<Rightarrow> (p, w));
            max_size = APNS_MAX_NOTIFICATION_SIZE config;
            default_expiration_offset = APNS_DEFAULT_EXPIRATION_OFFSET config
        in
          if int (length payload1) > max_size then
            (Inl (APNSDataOverflow
                    (''Notification body cannot exceed '' @ str_int max_size @ '' bytes'')), w1)
          else
            let (expiration_time, w2) =
                  (case expiration of
                     Some e \<Rightarrow> (e, w1)
                   | None \<Rightarrow>
                       (let (seconds, w2) = time_time w1
                        in (seconds + default_expiration_offset, w2)))
            in
              case pack_frame token payload1 identifier expiration_time priority of
                Inl e \<Rightarrow> (Inl e, w2)
              | Inr frame \<Rightarrow>
                  (case connection of
                     Some c \<Rightarrow> (Inr (), socket_write c frame w2)
                   | None \<Rightarrow>
                       (case create_push_socket config w2 of
                          (Inl e, w3) \<Rightarrow> (Inl e, w3)
                        | (Inr c, w3) \<Rightarrow>
                            (let (r, w4) = check_errors c config (socket_write c frame w3)
                             in (r, close c w4)))))"

text \<open>The \<^verbatim>\<open>for\<close> loop of \<^verbatim>\<open>send_bulk\<close> over \<^verbatim>\<open>enumerate(tokens)\<close>.\<close>

fun send_bulk_loop ::
  "(string \<Rightarrow> byte list) \<Rightarrow> string \<Rightarrow> config \<Rightarrow> int option \<Rightarrow> int \<Rightarrow> byte list \<Rightarrow>
   connection \<Rightarrow> (nat \<times> string) list \<Rightarrow> world \<Rightarrow> (error + unit) \<times> world" where
  "send_bulk_loop create_payload alert config expiration priority payload c [] w = (Inr (), w)"
| "send_bulk_loop create_payload alert config expiration priority payload c
     ((identifier, token) # rest) w =
     (case send create_payload token alert config (int identifier) expiration priority
             (Some payload) (Some c) w of
        (Inl e, w1) \<Rightarrow> (Inl e, w1)
      | (Inr u, w1) \<Rightarrow>
          send_bulk_loop create_payload alert config expiration priority payload c rest w1)"

text \<open>
  \<open>expiration\<close> and \<open>priority\<close> are the keyword options of these names, which reach
  \<^verbatim>\<open>send\<close> through \<^verbatim>\<open>**options\<close>; \<^verbatim>\<open>closing\<close> closes the connection on every way out of
  its block.
\<close>

definition send_bulk ::
  "(string \<Rightarrow> byte list) \<Rightarrow> string list \<Rightarrow> string \<Rightarrow> config \<Rightarrow> byte list option \<Rightarrow>
   int option \<Rightarrow> int \<Rightarrow> world \<Rightarrow> (error + unit) \<times> world" where
  "send_bulk create_payload tokens alert config payload expiration priority w =
     (let (payload1, w1) =
            (case payload of
               None \<Rightarrow> (create_payload alert, log_event Call_create_payload w)
             | Some p \<Rightarrow> (p, w))
      in case create_push_socket config w1 of
           (Inl e, w2) \<Rightarrow> (Inl e, w2)
         | (Inr c, w2) \<Rightarrow>
             (let (r, w3) =
                    (case send_bulk_loop create_payload alert config expiration priority
                            payload1 c (enumerate 0 tokens) w2 of
                       (Inl e, w4) \<Rightarrow> (Inl e, w4)
                     | (Inr u, w4) \<Rightarrow> check_errors c config w4)
              in (r, close c w3)))"

subsection \<open>Notions of the properties\<close>

text \<open>
  Definitions that the statements below use: the words of the specification, worlds
  after given steps, and inputs to evaluate the functions on.
\<close>

text \<open>
  The specification's words for a well-formed token, "64 characters of valid
  hexadecimal", as a predicate of its own.
\<close>

definition is_hex_digit :: "char \<Rightarrow> bool" where
  "is_hex_digit c = (c \<in> set ''0123456789abcdefABCDEF'')"

text \<open>
  The specification's words for one item of a frame: a 1-byte item id, a 2-byte
  big-endian length of the item's data alone, then the data.
\<close>

definition spec_item :: "nat \<Rightarrow> byte list \<Rightarrow> byte list" where
  "spec_item item_id data = of_nat item_id # be_bytes 2 (int (length data)) @ data"

text \<open>A configuration and a world to evaluate the functions on.\<close>

definition example_config :: config where
  "example_config =
     \<lparr>APNS_HOST = ''gateway.push.apple.com'', APNS_PORT = 2195,
      APNS_FEEDBACK_HOST = ''feedback.push.apple.com'', APNS_FEEDBACK_PORT = 2196,
      APNS_CERTIFICATE = ''cert.pem'', APNS_ERROR_TIMEOUT = Some 10,
      APNS_MAX_NOTIFICATION_SIZE = 2048, APNS_DEFAULT_EXPIRATION_OFFSET = 2592000\<rparr>"

definition example_world :: world where
  "example_world =
     \<lparr>unreadable = (\<lambda>certfile. None), clock = (\<lambda>k. 1000000000 + int k), ticks = 0,
      timeout = Some 30, script = [], trace = []\<rparr>"

text \<open>The two fields of a header of 6 bytes.\<close>

definition header_timestamp :: "byte list \<Rightarrow> int" where
  "header_timestamp header = be_int (take 4 header)"

definition header_token_length :: "byte list \<Rightarrow> nat" where
  "header_token_length header = nat (be_int (take 2 (drop 4 header)))"

text \<open>The world after one \<^verbatim>\<open>recv\<close> of \<open>n\<close> bytes that found the script \<open>rest\<close> left.\<close>

definition after_recv :: "connection \<Rightarrow> nat \<Rightarrow> recv_result list \<Rightarrow> world \<Rightarrow> world" where
  "after_recv c n rest w = w\<lparr>script := rest, trace := trace w @ [Recv c n]\<rparr>"

text \<open>
  The expiration of the notification number \<open>i\<close> of a batch that starts in the world
  \<open>w\<close>: the one handed in, or what the clock shows at its reading number \<open>i\<close> from
  now, plus the default offset.
\<close>

definition expiration_at :: "int option \<Rightarrow> config \<Rightarrow> world \<Rightarrow> nat \<Rightarrow> int" where
  "expiration_at expiration config w i =
     (case expiration of
        Some e \<Rightarrow> e
      | None \<Rightarrow> clock w (ticks w + i) + APNS_DEFAULT_EXPIRATION_OFFSET config)"

text \<open>The frame that \<^verbatim>\<open>pack_frame\<close> returns, where it returns one.\<close>

definition the_frame :: "string \<Rightarrow> byte list \<Rightarrow> int \<Rightarrow> int \<Rightarrow> int \<Rightarrow> byte list" where
  "the_frame token payload identifier expiration priority =
     (case pack_frame token payload identifier expiration priority of
        Inl e \<Rightarrow> []
      | Inr frame \<Rightarrow> frame)"

text \<open>The clock readings made by \<open>k\<close> calls of \<^verbatim>\<open>send\<close>.\<close>

definition readings :: "int option \<Rightarrow> nat \<Rightarrow> nat" where
  "readings expiration k = (case expiration of Some e \<Rightarrow> 0 | None \<Rightarrow> k)"

text \<open>The world of \<^verbatim>\<open>send_bulk\<close> when the connection is open and \<open>frames\<close> are written.\<close>

definition bulk_written ::
  "config \<Rightarrow> byte list option \<Rightarrow> int option \<Rightarrow> byte list list \<Rightarrow> world \<Rightarrow> world" where
  "bulk_written config payload expiration frames w =
     w\<lparr>ticks := ticks w + readings expiration (length frames),
       timeout := None,
       trace := trace w
         @ (case payload of None \<Rightarrow> [Call_create_payload] | Some p \<Rightarrow> [])
         @ [Read_file (APNS_CERTIFICATE config),
            Connect (APNS_HOST config) (APNS_PORT config) (APNS_CERTIFICATE config)]
         @ map (Write (Connection (APNS_HOST config) (APNS_PORT config))) frames\<rparr>"

text \<open>
  Modelled from the spec: the notification of the specification's data model, which a
  decoded frame gives: the token as its 32 raw bytes, the payload, and the three numbers.
\<close>

record notification =
  n_token :: "byte list"
  n_payload :: "byte list"
  n_identifier :: int
  n_expiration :: int
  n_priority :: int

text \<open>Modelled from the spec: one item, as its id, its data and the bytes behind it.\<close>

definition take_item :: "byte list \<Rightarrow> (nat \<times> byte list \<times> byte list) option" where
  "take_item bs =
     (case bs of
        item_id # l1 # l2 # rest \<Rightarrow>
          (let len = nat (be_int [l1, l2])
           in if len \<le> length rest then Some (unat item_id, take len rest, drop len rest)
              else None)
      | _ \<Rightarrow> None)"

text \<open>
  Modelled from the spec: \<^verbatim>\<open>decode_frame\<close>, the decoder that the round-trip property
  of the specification names; the repository has no decoder of frames. It reads the wire
  format of the specification, \<^verbatim>\<open>[1B cmd=2][4B BE total-len]\<close> and then five items
  \<^verbatim>\<open>[1B id][2B BE len][data]\<close> with the ids 1 to 5 in this order: a token of 32 bytes,
  the payload, an identifier and an expiration of 4 bytes each, a priority of 1 byte.
  The total length must be the length of what follows it, and nothing may follow the
  last item.
\<close>

definition decode_frame :: "byte list \<Rightarrow> notification option" where
  "decode_frame frame =
     (case frame of
        command # t1 # t2 # t3 # t4 # body \<Rightarrow>
          if command \<noteq> 2 \<or> nat (be_int [t1, t2, t3, t4]) \<noteq> length body then None
          else
            (case take_item body of
               None \<Rightarrow> None
             | Some (i1, token_bin, r1) \<Rightarrow>
            (case take_item r1 of
               None \<Rightarrow> None
             | Some (i2, payload, r2) \<Rightarrow>
            (case take_item r2 of
               None \<Rightarrow> None
             | Some (i3, identifier, r3) \<Rightarrow>
            (case take_item r3 of
               None \<Rightarrow> None
             | Some (i4, expiration, r4) \<Rightarrow>
            (case take_item r4 of
               None \<Rightarrow> None
             | Some (i5, priority, r5) \<Rightarrow>
                 if [i1, i2, i3, i4, i5] = [1, 2, 3, 4, 5] \<and> length token_bin = 32 \<and>
                    length identifier = 4 \<and> length expiration = 4 \<and> length priority = 1 \<and>
                    r5 = []
                 then Some \<lparr>n_token = token_bin, n_payload = payload,
                             n_identifier = be_int identifier,
                             n_expiration = be_int expiration,
                             n_priority = be_int priority\<rparr>
                 else None)))))
      | _ \<Rightarrow> None)"

section \<open>Properties\<close>

subsection \<open>Hexadecimal tokens\<close>

lemma hex_val_None_iff: "hex_val c = None \<longleftrightarrow> \<not> is_hex_digit c"
  by (auto simp: hex_val_def is_hex_digit_def)

lemma unhexlify_Inr_iff:
  "(\<exists>bs. unhexlify t = Inr bs) \<longleftrightarrow> even (length t) \<and> (\<forall>c\<in>set t. is_hex_digit c)"
proof (induction t rule: unhexlify.induct)
  case 1
  show ?case by simp
next
  case (2 c)
  show ?case by simp
next
  case (3 a b cs)
  show ?case
  proof (cases "hex_val a")
    case None
    then show ?thesis by (simp add: hex_val_None_iff [symmetric])
  next
    case (Some h)
    note Sa = this
    show ?thesis
    proof (cases "hex_val b")
      case None
      then show ?thesis using Sa by (simp add: hex_val_None_iff [symmetric])
    next
      case (Some l)
      have a: "is_hex_digit a" using Sa hex_val_None_iff [of a] by simp
      have b: "is_hex_digit b" using Some hex_val_None_iff [of b] by simp
      show ?thesis using Sa Some a b 3 [OF refl Sa Some]
        by (cases "unhexlify cs") auto
    qed
  qed
qed

lemma unhexlify_length: "unhexlify t = Inr bs \<Longrightarrow> length t = 2 * length bs"
proof (induction t arbitrary: bs rule: unhexlify.induct)
  case 1
  then show ?case by simp
next
  case (2 c)
  then show ?case by simp
next
  case (3 a b cs)
  then show ?case
    by (auto split: option.splits sum.splits)
qed

lemma is_valid_token_iff:
  "is_valid_token token \<longleftrightarrow> length token = 64 \<and> (\<forall>c\<in>set token. is_hex_digit c)"
proof (cases "unhexlify token")
  case (Inl e)
  then have "\<not> (\<exists>bs. unhexlify token = Inr bs)" by simp
  then have "\<not> (even (length token) \<and> (\<forall>c\<in>set token. is_hex_digit c))"
    using unhexlify_Inr_iff [of token] by blast
  then show ?thesis using Inl by (auto simp: is_valid_token_def)
next
  case (Inr bs)
  then have "\<exists>bs. unhexlify token = Inr bs" by blast
  then have h: "\<forall>c\<in>set token. is_hex_digit c" using unhexlify_Inr_iff [of token] by blast
  from Inr have "length token = 2 * length bs" by (rule unhexlify_length)
  then show ?thesis using Inr h by (auto simp: is_valid_token_def)
qed

lemma valid_token_unhexlify:
  "is_valid_token token \<Longrightarrow> \<exists>bs. unhexlify token = Inr bs \<and> length bs = 32"
  by (auto simp: is_valid_token_def dest: unhexlify_length split: sum.splits if_splits)

subsection \<open>Big-endian fields\<close>

lemma length_be_bytes: "length (be_bytes k n) = k"
  by (induction k arbitrary: n) auto

lemma be_bytes_1: "be_bytes (Suc 0) n = [of_int n]"
  by simp

lemma be_int_snoc: "be_int (bs @ [b]) = be_int bs * 256 + uint b"
  by (simp add: be_int_def)

lemma be_int_single: "be_int [b] = uint b"
  by (simp add: be_int_def)

lemma be_int_be_bytes: "0 \<le> n \<Longrightarrow> n < 256 ^ k \<Longrightarrow> be_int (be_bytes k n) = n"
proof (induction k arbitrary: n)
  case 0
  then show ?case by (simp add: be_int_def)
next
  case (Suc k)
  define X where "X = (256::int) ^ k"
  have "n < 256 * X" using Suc.prems by (simp add: X_def)
  then have "n div 256 < X" by arith
  then have "n div 256 < 256 ^ k" by (simp add: X_def)
  moreover have "0 \<le> n div 256" using Suc.prems by simp
  ultimately have "be_int (be_bytes k (n div 256)) = n div 256" by (rule Suc.IH [rotated])
  moreover have "uint (word_of_int n :: byte) = n mod 256"
    by (simp add: uint_word_of_int)
  ultimately show ?case by (simp add: be_int_snoc)
qed

subsection \<open>The frame\<close>

lemma length_spec_item: "length (spec_item item_id data) = 3 + length data"
  by (simp add: spec_item_def length_be_bytes)

lemma pack_frame_bytes:
  assumes tok: "unhexlify token = Inr token_bin" "length token_bin = 32"
    and pl: "length payload \<le> 65535"
    and ident: "0 \<le> identifier" "identifier < 2 ^ 32"
    and expi: "0 \<le> expiration" "expiration < 2 ^ 32"
    and prio: "0 \<le> priority" "priority < 2 ^ 8"
  shows "pack_frame token payload identifier expiration priority =
    Inr (2 # be_bytes 4 (int (3 * 5 + 32 + length payload + 4 + 4 + 1))
         @ spec_item 1 token_bin
         @ spec_item 2 payload
         @ spec_item 3 (be_bytes 4 identifier)
         @ spec_item 4 (be_bytes 4 expiration)
         @ spec_item 5 (be_bytes 1 priority))"
  using assms
  by (simp add: pack_frame_def frame_fmt_def spec_item_def length_be_bytes Let_def be_bytes_1
      del: be_bytes.simps)

text \<open>
  C3, as the code has it: for every valid token of 64 hexadecimal characters, every
  payload of at most 65535 bytes (its length has to fit the 2-byte length of its item),
  every 32-bit identifier, 32-bit expiration and 8-bit priority, the frame is the
  command byte 2, the 4-byte big-endian total length
  \<open>3 * 5 + 32 + length payload + 4 + 4 + 1\<close>, and then the five items token, payload,
  identifier, expiration, priority with the ids 1 to 5, each with a 2-byte big-endian
  length of its own data. The declared total is the summed size of the five items,
  headers and data.
\<close>

theorem pack_frame_layout:
  assumes "is_valid_token token" and "length payload \<le> 65535"
    and "0 \<le> identifier" and "identifier < 2 ^ 32"
    and "0 \<le> expiration" and "expiration < 2 ^ 32"
    and "0 \<le> priority" and "priority < 2 ^ 8"
  shows "\<exists>token_bin.
      unhexlify token = Inr token_bin \<and> length token_bin = 32 \<and>
      pack_frame token payload identifier expiration priority =
        Inr (2 # be_bytes 4 (int (3 * 5 + 32 + length payload + 4 + 4 + 1))
             @ spec_item 1 token_bin
             @ spec_item 2 payload
             @ spec_item 3 (be_bytes 4 identifier)
             @ spec_item 4 (be_bytes 4 expiration)
             @ spec_item 5 (be_bytes 1 priority)) \<and>
      be_int (be_bytes 4 (int (3 * 5 + 32 + length payload + 4 + 4 + 1)))
        = 15 + 32 + int (length payload) + 9 \<and>
      length (spec_item 1 token_bin @ spec_item 2 payload @ spec_item 3 (be_bytes 4 identifier)
              @ spec_item 4 (be_bytes 4 expiration) @ spec_item 5 (be_bytes 1 priority))
        = 3 * 5 + 32 + length payload + 4 + 4 + 1 \<and>
      be_int (be_bytes 2 (int (length token_bin))) = 32 \<and>
      be_int (be_bytes 2 (int (length payload))) = int (length payload) \<and>
      be_int (be_bytes 4 identifier) = identifier \<and>
      be_int (be_bytes 4 expiration) = expiration \<and>
      be_int (be_bytes 1 priority) = priority"
proof -
  from assms(1) obtain token_bin where tb: "unhexlify token = Inr token_bin" "length token_bin = 32"
    using valid_token_unhexlify by blast
  have frame: "pack_frame token payload identifier expiration priority =
        Inr (2 # be_bytes 4 (int (3 * 5 + 32 + length payload + 4 + 4 + 1))
             @ spec_item 1 token_bin
             @ spec_item 2 payload
             @ spec_item 3 (be_bytes 4 identifier)
             @ spec_item 4 (be_bytes 4 expiration)
             @ spec_item 5 (be_bytes 1 priority))"
    using tb assms(2-) by (rule pack_frame_bytes)
  have total: "be_int (be_bytes 4 (int (3 * 5 + 32 + length payload + 4 + 4 + 1)))
        = 15 + 32 + int (length payload) + 9"
    using assms(2) by (subst be_int_be_bytes) simp_all
  have len: "length (spec_item 1 token_bin @ spec_item 2 payload
              @ spec_item 3 (be_bytes 4 identifier)
              @ spec_item 4 (be_bytes 4 expiration) @ spec_item 5 (be_bytes 1 priority))
        = 3 * 5 + 32 + length payload + 4 + 4 + 1"
    using tb(2) by (simp add: length_spec_item length_be_bytes del: be_bytes.simps)
  have l1: "be_int (be_bytes 2 (int (length token_bin))) = 32"
    using tb(2) by (subst be_int_be_bytes) simp_all
  have l2: "be_int (be_bytes 2 (int (length payload))) = int (length payload)"
    using assms(2) by (subst be_int_be_bytes) simp_all
  have l3: "be_int (be_bytes 4 identifier) = identifier"
    using assms(3,4) by (subst be_int_be_bytes) simp_all
  have l4: "be_int (be_bytes 4 expiration) = expiration"
    using assms(5,6) by (subst be_int_be_bytes) simp_all
  have l5: "be_int (be_bytes 1 priority) = priority"
    using assms(7,8) by (subst be_int_be_bytes) simp_all
  from tb frame total len l1 l2 l3 l4 l5 show ?thesis by blast
qed

text \<open>The frame of the token \<open>a1\<close> \<open>\<times>\<close> 32 with the payload \<open>hello\<close>, byte by byte.\<close>

theorem pack_frame_layout_witness:
  "is_valid_token ''a1a1a1a1a1a1a1a1a1a1a1a1a1a1a1a1a1a1a1a1a1a1a1a1a1a1a1a1a1a1a1a1''
   \<and> pack_frame ''a1a1a1a1a1a1a1a1a1a1a1a1a1a1a1a1a1a1a1a1a1a1a1a1a1a1a1a1a1a1a1a1''
        [104, 101, 108, 108, 111] 7 1000 10
     = Inr [2, 0, 0, 0, 61,
            1, 0, 32, 161, 161, 161, 161, 161, 161, 161, 161, 161, 161, 161, 161, 161, 161,
              161, 161, 161, 161, 161, 161, 161, 161, 161, 161, 161, 161, 161, 161, 161, 161,
              161, 161,
            2, 0, 5, 104, 101, 108, 108, 111,
            3, 0, 4, 0, 0, 0, 7,
            4, 0, 4, 0, 0, 3, 232,
            5, 0, 1, 10]"
proof -
  let ?tok = "''a1a1a1a1a1a1a1a1a1a1a1a1a1a1a1a1a1a1a1a1a1a1a1a1a1a1a1a1a1a1a1a1''"
  have v: "is_valid_token ?tok"
    by code_simp
  have u: "unhexlify ?tok = Inr (replicate 32 161)"
    by code_simp
  have bytes: "2 # be_bytes 4 (int (3 * 5 + 32 + length [104, 101, 108, 108, 111 :: byte] + 4 + 4 + 1))
             @ spec_item 1 (replicate 32 161)
             @ spec_item 2 [104, 101, 108, 108, 111]
             @ spec_item 3 (be_bytes 4 7)
             @ spec_item 4 (be_bytes 4 1000)
             @ spec_item 5 (be_bytes 1 10)
     = [2, 0, 0, 0, 61,
            1, 0, 32, 161, 161, 161, 161, 161, 161, 161, 161, 161, 161, 161, 161, 161, 161,
              161, 161, 161, 161, 161, 161, 161, 161, 161, 161, 161, 161, 161, 161, 161, 161,
              161, 161,
            2, 0, 5, 104, 101, 108, 108, 111,
            3, 0, 4, 0, 0, 0, 7,
            4, 0, 4, 0, 0, 3, 232,
            5, 0, 1, 10]"
    by code_simp
  from pack_frame_layout [OF v, of "[104, 101, 108, 108, 111]" 7 1000 10]
  obtain token_bin where "unhexlify ?tok = Inr token_bin"
    and "pack_frame ?tok [104, 101, 108, 108, 111] 7 1000 10 =
        Inr (2 # be_bytes 4 (int (3 * 5 + 32 + length [104, 101, 108, 108, 111 :: byte] + 4 + 4 + 1))
             @ spec_item 1 token_bin
             @ spec_item 2 [104, 101, 108, 108, 111]
             @ spec_item 3 (be_bytes 4 7)
             @ spec_item 4 (be_bytes 4 1000)
             @ spec_item 5 (be_bytes 1 10))"
    by auto
  with u bytes v show ?thesis by (simp del: be_bytes.simps)
qed

text \<open>
  A payload of 65536 bytes: its length does not fit the format \<^verbatim>\<open>H\<close>, and
  \<^verbatim>\<open>struct.pack\<close> raises \<^verbatim>\<open>struct.error\<close>.
\<close>

theorem pack_frame_long_payload_counterexample:
  "is_valid_token ''a1a1a1a1a1a1a1a1a1a1a1a1a1a1a1a1a1a1a1a1a1a1a1a1a1a1a1a1a1a1a1a1'' \<and>
   pack_frame ''a1a1a1a1a1a1a1a1a1a1a1a1a1a1a1a1a1a1a1a1a1a1a1a1a1a1a1a1a1a1a1a1''
     (replicate 65536 0) 0 0 0
   = Inl Struct_error"
proof -
  let ?tok = "''a1a1a1a1a1a1a1a1a1a1a1a1a1a1a1a1a1a1a1a1a1a1a1a1a1a1a1a1a1a1a1a1''"
  have v: "is_valid_token ?tok"
    by code_simp
  have u: "unhexlify ?tok = Inr (replicate 32 161)"
    by code_simp
  have "pack_frame ?tok (replicate 65536 0) 0 0 0 = Inl Struct_error"
    by (simp add: pack_frame_def frame_fmt_def Let_def u del: unhexlify.simps)
  with v show ?thesis by simp
qed

subsection \<open>The error response\<close>

lemma unpack_BBI:
  "unpack [Fmt_B, Fmt_B, Fmt_I] [command, status, i1, i2, i3, i4]
   = Inr [Num (uint command), Num (uint status), Num (be_int [i1, i2, i3, i4])]"
  by (simp add: unpack_def calcsize_def be_int_single)

lemma unpack_BBI_short:
  "length data \<noteq> 6 \<Longrightarrow> unpack [Fmt_B, Fmt_B, Fmt_I] data = Inl Struct_error"
  by (simp add: unpack_def calcsize_def)

lemma uint_byte_neq_8: "command \<noteq> 8 \<Longrightarrow> uint (command :: byte) \<noteq> 8"
proof
  assume "command \<noteq> 8" and "uint command = 8"
  then have "(word_of_int (uint command) :: byte) = word_of_int 8" by simp
  then have "command = 8" by simp
  with \<open>command \<noteq> 8\<close> show False by simp
qed

lemma decode_response_command:
  "command \<noteq> 8 \<Longrightarrow>
   decode_response [command, status, i1, i2, i3, i4]
   = Inl (APNSError (''Error response command must be 8. Found: '' @ str_int (uint command)))"
  by (simp add: decode_response_def unpack_BBI APNS_ERROR_RESPONSE_COMMAND_def str_int_def
        str_nat.simps digit_char_def uint_byte_neq_8)

lemma decode_response_status_0:
  "decode_response [8, 0, i1, i2, i3, i4] = Inr ()"
  by (simp add: decode_response_def unpack_BBI APNS_ERROR_RESPONSE_COMMAND_def)

lemma decode_response_short:
  "data \<noteq> [] \<Longrightarrow> length data \<noteq> 6 \<Longrightarrow> decode_response data = Inl Struct_error"
  by (simp add: decode_response_def unpack_BBI_short)

lemma decode_response_not_passed: "decode_response data = Inl e \<Longrightarrow> \<not> timeout_passed e"
  by (auto simp: decode_response_def unpack_def raise_apns_server_error_def timeout_passed_def
      split: if_splits sum.splits list.splits val.splits)

lemma check_errors_disabled:
  "APNS_ERROR_TIMEOUT config = None \<Longrightarrow>
   check_errors c config w = (Inr (), w\<lparr>trace := trace w @ [Call_check_errors]\<rparr>)"
  by (simp add: check_errors_def log_event_def)

lemma check_errors_data:
  "APNS_ERROR_TIMEOUT config = Some t \<Longrightarrow> script w = Data data # rest \<Longrightarrow>
   check_errors c config w =
     (decode_response data,
      w\<lparr>script := rest,
        trace := trace w @ [Call_check_errors, Settimeout c (Some t), Recv c 6,
                            Settimeout c (timeout w)]\<rparr>)"
  by (cases "decode_response data")
    (auto simp: check_errors_def settimeout_def recv_def log_event_def
      dest: decode_response_not_passed)

lemma check_errors_world:
  "APNS_ERROR_TIMEOUT config = Some t \<Longrightarrow>
   snd (check_errors c config w) =
      w\<lparr>script := tl (script w),
        trace := trace w @ [Call_check_errors, Settimeout c (Some t), Recv c 6,
                            Settimeout c (timeout w)]\<rparr>"
  by (cases "script w")
    (simp_all add: check_errors_def settimeout_def recv_def log_event_def split: prod.splits)

lemma list_of_length_6:
  assumes "length data = 6"
  obtains a b c d e f where "data = [a, b, c, d, e, f]"
proof -
  from assms obtain a b c d e f where "data = [a, b, c, d, e, f]"
    by (auto simp: eval_nat_numeral length_Suc_conv)
  then show ?thesis by (rule that)
qed

text \<open>
  C7: for every error response of 6 bytes, decoding raises \<^verbatim>\<open>APNSError\<close> (the
  specification's protocol error) whenever the first byte, the command, is not 8, whatever
  the other bytes are; when the command is 8 and the status byte is 0, nothing is raised.
  \<^verbatim>\<open>check_errors\<close> returns what the decoding of the bytes it has read returns.
\<close>

theorem error_response_command_and_status:
  assumes "length data = 6"
  shows "(data ! 0 \<noteq> 8 \<longrightarrow>
            decode_response data
            = Inl (APNSError (''Error response command must be 8. Found: ''
                              @ str_int (uint (data ! 0))))) \<and>
         (data ! 0 = 8 \<and> data ! 1 = 0 \<longrightarrow> decode_response data = Inr ()) \<and>
         (APNS_ERROR_TIMEOUT config = Some t \<and> script w = Data data # rest \<longrightarrow>
            fst (check_errors c config w) = decode_response data)"
proof -
  from assms obtain command status i1 i2 i3 i4 where
    d: "data = [command, status, i1, i2, i3, i4]" by (rule list_of_length_6)
  have 1: "data ! 0 \<noteq> 8 \<longrightarrow>
            decode_response data
            = Inl (APNSError (''Error response command must be 8. Found: ''
                              @ str_int (uint (data ! 0))))"
    unfolding d using decode_response_command [of command status i1 i2 i3 i4] by simp
  have 2: "data ! 0 = 8 \<and> data ! 1 = 0 \<longrightarrow> decode_response data = Inr ()"
    unfolding d using decode_response_status_0 [of i1 i2 i3 i4] by auto
  have 3: "APNS_ERROR_TIMEOUT config = Some t \<and> script w = Data data # rest \<longrightarrow>
            fst (check_errors c config w) = decode_response data"
    by (simp add: check_errors_data)
  from 1 2 3 show ?thesis by blast
qed

text \<open>The responses \<open>(7, 0, 1)\<close> and \<open>(8, 0, 1)\<close>.\<close>

theorem error_response_command_and_status_witness:
  "fst (check_errors (Connection ''gateway.push.apple.com'' 2195) example_config
          (example_world\<lparr>script := [Data [7, 0, 0, 0, 0, 1]]\<rparr>))
     = Inl (APNSError ''Error response command must be 8. Found: 7'') \<and>
   fst (check_errors (Connection ''gateway.push.apple.com'' 2195) example_config
          (example_world\<lparr>script := [Data [8, 0, 0, 0, 0, 1]]\<rparr>))
     = Inr ()"
proof -
  have s: "str_int 7 = ''7''"
    by (simp add: str_int_def str_nat.simps digit_char_def)
  show ?thesis
    using error_response_command_and_status
        [of "[7, 0, 0, 0, 0, 1]" example_config 10
          "example_world\<lparr>script := [Data [7, 0, 0, 0, 0, 1]]\<rparr>" "[]"
          "Connection ''gateway.push.apple.com'' 2195"]
      error_response_command_and_status
        [of "[8, 0, 0, 0, 0, 1]" example_config 10
          "example_world\<lparr>script := [Data [8, 0, 0, 0, 0, 1]]\<rparr>" "[]"
          "Connection ''gateway.push.apple.com'' 2195"]
    by (simp add: example_config_def example_world_def s)
qed

text \<open>
  C10: \<^verbatim>\<open>check_errors\<close> unpacks whatever non-empty data the read of 6 bytes returns
  without a look at its length: a read that returns 1 to 5 bytes ends in
  \<^verbatim>\<open>struct.error\<close>, which no \<^verbatim>\<open>except\<close> clause takes. It is neither read as
  "no response" nor turned into an \<^verbatim>\<open>APNSError\<close>.
\<close>

theorem check_errors_short_read:
  assumes "APNS_ERROR_TIMEOUT config = Some t" and "script w = Data data # rest"
    and "1 \<le> length data" and "length data \<le> 5"
  shows "decode_response data = Inl Struct_error \<and>
         fst (check_errors c config w) = Inl Struct_error \<and>
         fst (check_errors c config w) \<noteq> Inr () \<and>
         (\<forall>message. fst (check_errors c config w) \<noteq> Inl (APNSError message))"
proof -
  from assms(3,4) have "data \<noteq> []" and "length data \<noteq> 6" by auto
  then have "decode_response data = Inl Struct_error" by (rule decode_response_short)
  moreover from assms(1,2) have "fst (check_errors c config w) = decode_response data"
    by (simp add: check_errors_data)
  ultimately show ?thesis by simp
qed

text \<open>A read that returns three bytes.\<close>

theorem check_errors_short_read_witness:
  "fst (check_errors (Connection ''gateway.push.apple.com'' 2195) example_config
          (example_world\<lparr>script := [Data [8, 8, 0]]\<rparr>))
     = Inl Struct_error"
  using check_errors_short_read
        [of example_config 10 "example_world\<lparr>script := [Data [8, 8, 0]]\<rparr>" "[8, 8, 0]" "[]"
          "Connection ''gateway.push.apple.com'' 2195"]
  by (simp add: example_config_def example_world_def)

text \<open>
  C9: with the error timeout switched off (\<open>None\<close>), \<^verbatim>\<open>check_errors\<close> reads nothing:
  it returns at once and the world is as before, but for the record of the call.
  Otherwise the socket ends with the timeout it had before the call, whatever was read:
  the trace is the setting of the error timeout, one read of 6 bytes, and the setting
  of the timeout saved before the read, on every way out.
\<close>

theorem check_errors_timeout_restored:
  "(APNS_ERROR_TIMEOUT config = None \<longrightarrow>
      check_errors c config w = (Inr (), w\<lparr>trace := trace w @ [Call_check_errors]\<rparr>)) \<and>
   (APNS_ERROR_TIMEOUT config = Some t \<longrightarrow>
      timeout (snd (check_errors c config w)) = timeout w \<and>
      trace (snd (check_errors c config w))
        = trace w @ [Call_check_errors, Settimeout c (Some t), Recv c 6,
                     Settimeout c (timeout w)])"
  by (simp add: check_errors_disabled check_errors_world)


text \<open>
  A socket with the timeout 30: no data, a timeout of the read, a decoded server error,
  and the switched-off check.
\<close>

theorem check_errors_timeout_restored_witness:
  "timeout example_world = Some 30 \<and>
   fst (check_errors (Connection ''gateway.push.apple.com'' 2195) example_config example_world)
     = Inr () \<and>
   timeout (snd (check_errors (Connection ''gateway.push.apple.com'' 2195) example_config
                   example_world)) = Some 30 \<and>
   fst (check_errors (Connection ''gateway.push.apple.com'' 2195) example_config
          (example_world\<lparr>script := [Timed_out]\<rparr>)) = Inr () \<and>
   timeout (snd (check_errors (Connection ''gateway.push.apple.com'' 2195) example_config
                   (example_world\<lparr>script := [Timed_out]\<rparr>))) = Some 30 \<and>
   fst (check_errors (Connection ''gateway.push.apple.com'' 2195) example_config
          (example_world\<lparr>script := [Data [8, 8, 0, 0, 0, 1]]\<rparr>)) = Inl (APNSServerError 8 1) \<and>
   timeout (snd (check_errors (Connection ''gateway.push.apple.com'' 2195) example_config
                   (example_world\<lparr>script := [Data [8, 8, 0, 0, 0, 1]]\<rparr>))) = Some 30 \<and>
   trace (snd (check_errors (Connection ''gateway.push.apple.com'' 2195) example_config
                   (example_world\<lparr>script := [Data [8, 8, 0, 0, 0, 1]]\<rparr>)))
     = [Call_check_errors, Settimeout (Connection ''gateway.push.apple.com'' 2195) (Some 10),
        Recv (Connection ''gateway.push.apple.com'' 2195) 6,
        Settimeout (Connection ''gateway.push.apple.com'' 2195) (Some 30)] \<and>
   trace (snd (check_errors (Connection ''gateway.push.apple.com'' 2195)
                   (example_config\<lparr>APNS_ERROR_TIMEOUT := None\<rparr>)
                   (example_world\<lparr>script := [Data [8, 8, 0, 0, 0, 1]]\<rparr>)))
     = [Call_check_errors]"
proof -
  let ?c = "Connection ''gateway.push.apple.com'' 2195"
  have r1: "fst (check_errors ?c example_config example_world) = Inr ()"
    by (simp add: check_errors_def example_config_def example_world_def settimeout_def recv_def
        log_event_def decode_response_def Let_def)
  have r2: "fst (check_errors ?c example_config (example_world\<lparr>script := [Timed_out]\<rparr>)) = Inr ()"
    by (simp add: check_errors_def example_config_def example_world_def settimeout_def recv_def
        log_event_def timeout_passed_def Let_def)
  have r3: "fst (check_errors ?c example_config
                  (example_world\<lparr>script := [Data [8, 8, 0, 0, 0, 1]]\<rparr>))
            = Inl (APNSServerError 8 1)"
    by (simp add: check_errors_data [where t = 10 and rest = "[]"] example_config_def
        example_world_def decode_response_def unpack_BBI APNS_ERROR_RESPONSE_COMMAND_def
        raise_apns_server_error_def be_int_def)
  show ?thesis
    using r1 r2 r3
      check_errors_timeout_restored [of example_config ?c example_world 10]
      check_errors_timeout_restored
        [of example_config ?c "example_world\<lparr>script := [Timed_out]\<rparr>" 10]
      check_errors_timeout_restored
        [of example_config ?c "example_world\<lparr>script := [Data [8, 8, 0, 0, 0, 1]]\<rparr>" 10]
      check_errors_timeout_restored
        [of "example_config\<lparr>APNS_ERROR_TIMEOUT := None\<rparr>" ?c
          "example_world\<lparr>script := [Data [8, 8, 0, 0, 0, 1]]\<rparr>" 10]
    by (simp add: example_config_def example_world_def)
qed

subsection \<open>The feedback stream\<close>

lemma script_after_recv [simp]: "script (after_recv c n rest w) = rest"
  by (simp add: after_recv_def)

lemma read_and_unpack_end:
  "script w = [] \<Longrightarrow> read_and_unpack c fmt w = (Inr None, after_recv c (calcsize fmt) [] w)"
  by (simp add: read_and_unpack_def recv_def log_event_def after_recv_def)

lemma read_and_unpack_data:
  "script w = Data data # rest \<Longrightarrow>
   read_and_unpack c fmt w =
     (if data \<noteq> [] then
        (case unpack_from fmt data of Inl e \<Rightarrow> Inl e | Inr vs \<Rightarrow> Inr (Some vs))
      else Inr None,
      after_recv c (calcsize fmt) rest w)"
  by (simp add: read_and_unpack_def recv_def log_event_def after_recv_def split: sum.splits)

lemma unpack_from_header:
  "6 \<le> length header \<Longrightarrow>
   unpack_from [Fmt_L, Fmt_H] header
   = Inr [Num (header_timestamp header), Num (int (header_token_length header))]"
proof -
  have "0 \<le> be_int bs" for bs
    unfolding be_int_def by (induction bs rule: rev_induct) simp_all
  then show "6 \<le> length header \<Longrightarrow> ?thesis"
    by (simp add: unpack_from_def calcsize_def header_timestamp_def header_token_length_def)
qed

lemma unpack_from_short:
  "length data < calcsize fmt \<Longrightarrow> unpack_from fmt data = Inl Struct_error"
  by (simp add: unpack_from_def)

lemma unpack_from_s:
  "n \<le> length data \<Longrightarrow> unpack_from [Fmt_s n] data = Inr [Bytes (take n data)]"
  by (simp add: unpack_from_def calcsize_def)

lemma calcsize_header [simp]: "calcsize [Fmt_L, Fmt_H] = 6"
  by (simp add: calcsize_def)

lemma calcsize_s [simp]: "calcsize [Fmt_s n] = n"
  by (simp add: calcsize_def)

lemma not_passed_Struct_error [simp]: "\<not> timeout_passed Struct_error"
  by (simp add: timeout_passed_def)

lemma feedback_step_end:
  "script w = [] \<or> script w = Data [] # rest \<Longrightarrow>
   fst (feedback_step c acc w) = Inr (False, acc)"
  by (auto simp: feedback_step_def feedback_try_def read_and_unpack_end read_and_unpack_data)

lemma feedback_step_short_header:
  "script w = Data data # rest \<Longrightarrow> data \<noteq> [] \<Longrightarrow> length data < 6 \<Longrightarrow>
   fst (feedback_step c acc w) = Inl Struct_error"
  by (simp add: feedback_step_def feedback_try_def read_and_unpack_data unpack_from_short)

lemma feedback_step_short_body:
  "script w = Data header # Data body # rest \<Longrightarrow> length header = 6 \<Longrightarrow> body \<noteq> [] \<Longrightarrow>
   length body < header_token_length header \<Longrightarrow>
   fst (feedback_step c acc w) = Inl Struct_error"
  by (auto simp: feedback_step_def feedback_try_def read_and_unpack_data unpack_from_short
      unpack_from_header)

lemma feedback_step_empty_body:
  "script w = Data header # Data [] # rest \<Longrightarrow> length header = 6 \<Longrightarrow>
   feedback_step c acc w
   = (Inr (True, acc),
      after_recv c (header_token_length header) rest (after_recv c 6 (Data [] # rest) w))"
  by (auto simp: feedback_step_def feedback_try_def read_and_unpack_data unpack_from_header)

lemma feedback_step_header_only:
  "script w = [Data header] \<Longrightarrow> length header = 6 \<Longrightarrow>
   feedback_step c acc w
   = (Inr (True, acc),
      after_recv c (header_token_length header) [] (after_recv c 6 [] w))"
  by (auto simp: feedback_step_def feedback_try_def read_and_unpack_data unpack_from_header
      read_and_unpack_end)

lemma feedback_step_record:
  "script w = Data header # Data body # rest \<Longrightarrow> length header = 6 \<Longrightarrow> body \<noteq> [] \<Longrightarrow>
   length body = header_token_length header \<Longrightarrow>
   feedback_step c acc w
   = (Inr (True, acc @ [(hexlify body, header_timestamp header)]),
      after_recv c (header_token_length header) rest (after_recv c 6 (Data body # rest) w))"
  by (auto simp: feedback_step_def feedback_try_def read_and_unpack_data unpack_from_header
      unpack_from_s)

lemma loop_end:
  "script w = [] \<or> script w = Data [] # rest \<Longrightarrow>
   fst (receive_feedback_loop c acc w) = Inr acc"
  using feedback_step_end [of w rest c acc]
  by (subst receive_feedback_loop.simps) (auto split: prod.splits sum.splits)

lemma loop_error:
  "fst (feedback_step c acc w) = Inl e \<Longrightarrow> fst (receive_feedback_loop c acc w) = Inl e"
  by (subst receive_feedback_loop.simps) (auto split: prod.splits sum.splits)

lemma loop_continue:
  "feedback_step c acc w = (Inr (True, acc1), w1) \<Longrightarrow>
   receive_feedback_loop c acc w = receive_feedback_loop c acc1 w1"
  by (subst receive_feedback_loop.simps) simp


text \<open>
  C2, as the code has it. At any point of the stream, with any records \<open>acc\<close> decoded
  so far: an empty read where a header is due ends the sequence with the records so far
  (the empty sequence at the very start); a read of 1 to 5 bytes where a header is due
  raises \<^verbatim>\<open>struct.error\<close>; so does a non-empty read of fewer bytes than the token
  length where a token is due; an empty read where a token is due drops that record, and
  the decoder goes on with the next header; a well-formed record is appended and the
  decoder goes on. A stream of exactly one well-formed record gives that record and
  ends.
\<close>

theorem receive_feedback_reads:
  "(script w = [] \<or> script w = Data [] # rest \<longrightarrow>
      fst (receive_feedback_loop c acc w) = Inr acc \<and> fst (receive_feedback c w) = Inr []) \<and>
   (script w = Data data # rest \<and> data \<noteq> [] \<and> length data < 6 \<longrightarrow>
      fst (receive_feedback_loop c acc w) = Inl Struct_error) \<and>
   (script w = Data header # Data body # rest \<and> length header = 6 \<and> body \<noteq> [] \<and>
    length body < header_token_length header \<longrightarrow>
      fst (receive_feedback_loop c acc w) = Inl Struct_error) \<and>
   (script w = Data header # Data [] # rest \<and> length header = 6 \<longrightarrow>
      receive_feedback_loop c acc w
      = receive_feedback_loop c acc
          (after_recv c (header_token_length header) rest
             (after_recv c 6 (Data [] # rest) w))) \<and>
   (script w = Data header # Data body # rest \<and> length header = 6 \<and> body \<noteq> [] \<and>
    length body = header_token_length header \<longrightarrow>
      receive_feedback_loop c acc w
      = receive_feedback_loop c (acc @ [(hexlify body, header_timestamp header)])
          (after_recv c (header_token_length header) rest
             (after_recv c 6 (Data body # rest) w))) \<and>
   (script w = [Data header, Data body] \<and> length header = 6 \<and> body \<noteq> [] \<and>
    length body = header_token_length header \<longrightarrow>
      fst (receive_feedback c w) = Inr [(hexlify body, header_timestamp header)])"
proof -
  have 1: "script w = [] \<or> script w = Data [] # rest \<longrightarrow>
      fst (receive_feedback_loop c acc w) = Inr acc \<and> fst (receive_feedback c w) = Inr []"
    by (auto simp: receive_feedback_def loop_end)
  have 2: "script w = Data data # rest \<and> data \<noteq> [] \<and> length data < 6 \<longrightarrow>
      fst (receive_feedback_loop c acc w) = Inl Struct_error"
    by (auto intro: loop_error feedback_step_short_header)
  have 3: "script w = Data header # Data body # rest \<and> length header = 6 \<and> body \<noteq> [] \<and>
    length body < header_token_length header \<longrightarrow>
      fst (receive_feedback_loop c acc w) = Inl Struct_error"
    by (auto intro: loop_error feedback_step_short_body)
  have 4: "script w = Data header # Data [] # rest \<and> length header = 6 \<longrightarrow>
      receive_feedback_loop c acc w
      = receive_feedback_loop c acc
          (after_recv c (header_token_length header) rest
             (after_recv c 6 (Data [] # rest) w))"
    by (auto intro: loop_continue feedback_step_empty_body)
  have 5: "script w = Data header # Data body # rest \<and> length header = 6 \<and> body \<noteq> [] \<and>
    length body = header_token_length header \<longrightarrow>
      receive_feedback_loop c acc w
      = receive_feedback_loop c (acc @ [(hexlify body, header_timestamp header)])
          (after_recv c (header_token_length header) rest
             (after_recv c 6 (Data body # rest) w))" for acc rest
    by (auto intro: loop_continue feedback_step_record)
  have 6: "script w = [Data header, Data body] \<and> length header = 6 \<and> body \<noteq> [] \<and>
    length body = header_token_length header \<longrightarrow>
      fst (receive_feedback c w) = Inr [(hexlify body, header_timestamp header)]"
  proof (intro impI, elim conjE)
    assume a: "script w = [Data header, Data body]" "length header = 6" "body \<noteq> []"
      "length body = header_token_length header"
    with 5 [where acc = "[]" and rest = "[]"] have "receive_feedback_loop c [] w
      = receive_feedback_loop c [(hexlify body, header_timestamp header)]
          (after_recv c (header_token_length header) []
             (after_recv c 6 [Data body] w))"
      by simp
    moreover have "fst (receive_feedback_loop c [(hexlify body, header_timestamp header)]
          (after_recv c (header_token_length header) []
             (after_recv c 6 [Data body] w))) = Inr [(hexlify body, header_timestamp header)]"
      by (rule loop_end) simp
    ultimately show "fst (receive_feedback c w) = Inr [(hexlify body, header_timestamp header)]"
      by (simp add: receive_feedback_def)
  qed
  from 1 2 3 4 5 [where acc = acc and rest = rest] 6 show ?thesis by blast
qed

text \<open>
  The timestamp 1000000000, the length 32 and 32 token bytes; the empty stream; four
  bytes where a header is due; two bytes where the token of 32 is due; and an empty
  read where the token is due, at the end of the stream.
\<close>

theorem receive_feedback_reads_witness:
  "fst (receive_feedback (Connection ''feedback.push.apple.com'' 2196)
          (example_world\<lparr>script := [Data [59, 154, 202, 0, 0, 32], Data (replicate 32 161)]\<rparr>))
   = Inr [(''a1a1a1a1a1a1a1a1a1a1a1a1a1a1a1a1a1a1a1a1a1a1a1a1a1a1a1a1a1a1a1a1'', 1000000000)] \<and>
   fst (receive_feedback (Connection ''feedback.push.apple.com'' 2196) example_world) = Inr [] \<and>
   fst (receive_feedback (Connection ''feedback.push.apple.com'' 2196)
          (example_world\<lparr>script := [Data [59, 154, 202, 0]]\<rparr>))
   = Inl Struct_error \<and>
   fst (receive_feedback (Connection ''feedback.push.apple.com'' 2196)
          (example_world\<lparr>script := [Data [59, 154, 202, 0, 0, 32], Data [161, 161]]\<rparr>))
   = Inl Struct_error \<and>
   fst (receive_feedback (Connection ''feedback.push.apple.com'' 2196)
          (example_world\<lparr>script := [Data [59, 154, 202, 0, 0, 32], Data []]\<rparr>))
   = Inr []"
proof -
  let ?c = "Connection ''feedback.push.apple.com'' 2196"
  let ?h = "[59, 154, 202, 0, 0, 32] :: byte list"
  have h: "header_token_length ?h = 32" "header_timestamp ?h = 1000000000"
    by (simp_all add: header_token_length_def header_timestamp_def be_int_def)
  have x: "hexlify (replicate 32 161)
    = ''a1a1a1a1a1a1a1a1a1a1a1a1a1a1a1a1a1a1a1a1a1a1a1a1a1a1a1a1a1a1a1a1''"
    by code_simp
  have one_record: "fst (receive_feedback ?c
                  (example_world\<lparr>script := [Data ?h, Data (replicate 32 161)]\<rparr>))
    = Inr [(''a1a1a1a1a1a1a1a1a1a1a1a1a1a1a1a1a1a1a1a1a1a1a1a1a1a1a1a1a1a1a1a1'', 1000000000)]"
    using receive_feedback_reads
        [where w = "example_world\<lparr>script := [Data ?h, Data (replicate 32 161)]\<rparr>"
           and c = ?c and header = ?h and body = "replicate 32 161"]
    by (simp add: h x)
  have empty: "fst (receive_feedback ?c example_world) = Inr []"
    using receive_feedback_reads [where w = example_world and c = ?c]
    by (simp add: example_world_def)
  have short_header: "fst (receive_feedback ?c (example_world\<lparr>script := [Data [59, 154, 202, 0]]\<rparr>))
    = Inl Struct_error"
    using receive_feedback_reads
        [where w = "example_world\<lparr>script := [Data [59, 154, 202, 0]]\<rparr>" and c = ?c
           and acc = "[]" and data = "[59, 154, 202, 0]" and rest = "[]"]
    by (simp add: receive_feedback_def)
  have short_body: "fst (receive_feedback ?c
                      (example_world\<lparr>script := [Data ?h, Data [161, 161]]\<rparr>))
    = Inl Struct_error"
    using receive_feedback_reads
        [where w = "example_world\<lparr>script := [Data ?h, Data [161, 161]]\<rparr>" and c = ?c
           and acc = "[]" and header = ?h and body = "[161, 161]" and rest = "[]"]
    by (simp add: receive_feedback_def h)
  let ?w = "example_world\<lparr>script := [Data ?h, Data []]\<rparr>"
  have "receive_feedback_loop ?c [] ?w
    = receive_feedback_loop ?c [] (after_recv ?c 32 [] (after_recv ?c 6 [Data []] ?w))"
    using receive_feedback_reads
        [where w = ?w and c = ?c and acc = "[]" and header = ?h and rest = "[]"]
    by (simp add: h)
  moreover have "fst (receive_feedback_loop ?c []
                        (after_recv ?c 32 [] (after_recv ?c 6 [Data []] ?w))) = Inr []"
    using receive_feedback_reads
        [where w = "after_recv ?c 32 [] (after_recv ?c 6 [Data []] ?w)" and c = ?c
           and acc = "[]"]
    by simp
  ultimately have empty_body: "fst (receive_feedback ?c ?w) = Inr []"
    by (simp add: receive_feedback_def)
  from one_record empty short_header short_body empty_body show ?thesis
    by (intro conjI)
qed

text \<open>
  Three bytes where a header is due, and one byte where a token of two is due, raise
  \<^verbatim>\<open>struct.error\<close>; after an empty read where a token is due the decoder still yields
  the record that follows.
\<close>

theorem receive_feedback_partial_read_counterexample:
  "fst (receive_feedback (Connection ''feedback.push.apple.com'' 2196)
          (example_world\<lparr>script := [Data [59, 154, 202]]\<rparr>))
   = Inl Struct_error \<and>
   fst (receive_feedback (Connection ''feedback.push.apple.com'' 2196)
          (example_world\<lparr>script := [Data [59, 154, 202, 0, 0, 2], Data [161]]\<rparr>))
   = Inl Struct_error \<and>
   fst (receive_feedback (Connection ''feedback.push.apple.com'' 2196)
          (example_world\<lparr>script := [Data [59, 154, 202, 0, 0, 2], Data [],
                                      Data [59, 154, 202, 0, 0, 1], Data [161]]\<rparr>))
   = Inr [(''a1'', 1000000000)]"
proof -
  let ?c = "Connection ''feedback.push.apple.com'' 2196"
  have h: "header_token_length [59, 154, 202, 0, 0, 2] = 2"
    "header_token_length [59, 154, 202, 0, 0, 1] = 1"
    "header_timestamp [59, 154, 202, 0, 0, 1] = 1000000000"
    by (simp_all add: header_token_length_def header_timestamp_def be_int_def)
  have x: "hexlify [161] = ''a1''"
    by code_simp
  have 1: "fst (receive_feedback ?c (example_world\<lparr>script := [Data [59, 154, 202]]\<rparr>))
    = Inl Struct_error"
    unfolding receive_feedback_def
    by (rule loop_error, rule feedback_step_short_header [where rest = "[]" and data = "[59, 154, 202]"])
      (simp_all add: example_world_def)
  have 2: "fst (receive_feedback ?c
             (example_world\<lparr>script := [Data [59, 154, 202, 0, 0, 2], Data [161]]\<rparr>))
    = Inl Struct_error"
    unfolding receive_feedback_def
    by (rule loop_error,
        rule feedback_step_short_body
          [where rest = "[]" and header = "[59, 154, 202, 0, 0, 2]" and body = "[161]"])
      (simp_all add: h example_world_def)
  let ?w = "example_world\<lparr>script := [Data [59, 154, 202, 0, 0, 2], Data [],
                                      Data [59, 154, 202, 0, 0, 1], Data [161]]\<rparr>"
  let ?w1 = "after_recv ?c 2 [Data [59, 154, 202, 0, 0, 1], Data [161]]
               (after_recv ?c 6 [Data [], Data [59, 154, 202, 0, 0, 1], Data [161]] ?w)"
  let ?w2 = "after_recv ?c 1 [] (after_recv ?c 6 [Data [161]] ?w1)"
  have a: "receive_feedback_loop ?c [] ?w = receive_feedback_loop ?c [] ?w1"
    by (rule loop_continue)
      (simp add: feedback_step_empty_body [where rest = "[Data [59, 154, 202, 0, 0, 1], Data [161]]"] h)
  have b: "receive_feedback_loop ?c [] ?w1 = receive_feedback_loop ?c [(''a1'', 1000000000)] ?w2"
    by (rule loop_continue)
      (simp add: feedback_step_record [where rest = "[]"] h x)
  have c: "fst (receive_feedback_loop ?c [(''a1'', 1000000000)] ?w2) = Inr [(''a1'', 1000000000)]"
    by (rule loop_end) simp
  from a b c have 3: "fst (receive_feedback ?c ?w) = Inr [(''a1'', 1000000000)]"
    by (simp add: receive_feedback_def)
  from 1 2 3 show ?thesis by blast
qed

subsection \<open>Sending one notification\<close>

lemma unhexlify_error: "unhexlify t = Inl e \<Longrightarrow> e = Type_error"
  by (induction t arbitrary: e rule: unhexlify.induct)
     (auto split: option.splits sum.splits)

lemma pack_one_error: "pack_one c v = Inl e \<Longrightarrow> e = Struct_error"
  by (cases "(c, v)" rule: pack_one.cases) (auto split: if_splits)

lemma pack_error: "pack fmt vs = Inl e \<Longrightarrow> e = Struct_error"
  by (induction fmt vs arbitrary: e rule: pack.induct)
     (auto split: sum.splits dest: pack_one_error)

lemma pack_frame_error:
  "pack_frame token payload identifier expiration priority = Inl e \<Longrightarrow>
   e = Type_error \<or> e = Struct_error"
  by (auto simp: pack_frame_def Let_def split: sum.splits dest: unhexlify_error pack_error)

lemma str_int_8: "str_int 8 = ''8''"
  by (simp add: str_int_def str_nat.simps digit_char_def)

lemma decode_response_error:
  "decode_response data = Inl e \<Longrightarrow>
   e = Struct_error \<or> e = Value_error \<or> (\<exists>status identifier. e = APNSServerError status identifier)
   \<or> (\<exists>found. e = APNSError (''Error response command must be 8. Found: '' @ found))"
  by (auto simp: decode_response_def unpack_def raise_apns_server_error_def
      APNS_ERROR_RESPONSE_COMMAND_def str_int_8
      split: if_splits sum.splits list.splits val.splits)

lemma recv_outcome_error:
  "recv_outcome r = Inl e \<Longrightarrow>
   e = Socket_timeout \<or> (\<exists>m. e = SSL_error m) \<or> (\<exists>m. e = Socket_error m)"
  by (cases r) auto

text \<open>The exceptions that can leave \<^verbatim>\<open>check_errors\<close>.\<close>

lemma check_errors_error:
  assumes "fst (check_errors c config w) = Inl e"
  shows "(\<exists>m. e = SSL_error m) \<or> (\<exists>m. e = Socket_error m)
   \<or> e = Struct_error \<or> e = Value_error \<or> (\<exists>status identifier. e = APNSServerError status identifier)
   \<or> (\<exists>found. e = APNSError (''Error response command must be 8. Found: '' @ found))"
proof (cases "APNS_ERROR_TIMEOUT config")
  case None
  with assms show ?thesis by (simp add: check_errors_def)
next
  case (Some t)
  show ?thesis
  proof (cases "script w")
    case Nil
    with assms Some show ?thesis
      by (simp add: check_errors_def Let_def recv_def settimeout_def log_event_def
          decode_response_def)
  next
    case (Cons r rs)
    show ?thesis
    proof (cases "recv_outcome r")
      case (Inl x)
      with assms Some Cons have "e = x" "\<not> timeout_passed x"
        by (auto simp: check_errors_def Let_def recv_def settimeout_def log_event_def
            split: if_splits)
      with recv_outcome_error [OF Inl] show ?thesis
        by (auto simp: timeout_passed_def)
    next
      case (Inr data)
      with assms Some Cons have "decode_response data = Inl e"
        by (auto simp: check_errors_def Let_def recv_def settimeout_def log_event_def
            split: if_splits sum.splits)
      from decode_response_error [OF this] show ?thesis by blast
    qed
  qed
qed

lemma create_socket_error:
  "fst (create_socket host port certfile w) = Inl e \<Longrightarrow>
   e = APNSError ''Missing certificate file. Cannot send notifications.''
   \<or> (\<exists>m. e = APNSError (''The certfile at '' @ m))"
  by (auto simp: create_socket_def Let_def split: if_splits option.splits)

text \<open>The exceptions that can leave \<^verbatim>\<open>send\<close> once the token has passed.\<close>

lemma send_error_valid_token:
  assumes "is_valid_token token"
    and "fst (send create_payload token alert config identifier expiration priority payload
               connection w) = Inl e"
  shows "(\<exists>m. e = APNSDataOverflow m \<and>
            int (length (case payload of None \<Rightarrow> create_payload alert | Some p \<Rightarrow> p))
              > APNS_MAX_NOTIFICATION_SIZE config)
   \<or> e = Type_error \<or> e = Struct_error \<or> e = Value_error
   \<or> (\<exists>m. e = SSL_error m) \<or> (\<exists>m. e = Socket_error m)
   \<or> (\<exists>status identifier. e = APNSServerError status identifier)
   \<or> (\<exists>found. e = APNSError (''Error response command must be 8. Found: '' @ found))
   \<or> e = APNSError ''Missing certificate file. Cannot send notifications.''
   \<or> (\<exists>m. e = APNSError (''The certfile at '' @ m))"
proof -
  let ?p = "case payload of None \<Rightarrow> create_payload alert | Some p \<Rightarrow> p"
  let ?w1 = "case payload of None \<Rightarrow> log_event Call_create_payload w | Some p \<Rightarrow> w"
  let ?exp = "case expiration of Some e \<Rightarrow> e
              | None \<Rightarrow> clock ?w1 (ticks ?w1) + APNS_DEFAULT_EXPIRATION_OFFSET config"
  let ?w2 = "case expiration of Some e \<Rightarrow> ?w1 | None \<Rightarrow> ?w1\<lparr>ticks := Suc (ticks ?w1)\<rparr>"
  have split_expiration: "(case expiration of
                     Some e \<Rightarrow> (e, ?w1)
                   | None \<Rightarrow>
                       (let (seconds, w2) = time_time ?w1
                        in (seconds + APNS_DEFAULT_EXPIRATION_OFFSET config, w2))) = (?exp, ?w2)"
    by (cases expiration) (simp_all add: time_time_def)
  have split_payload: "(case payload of
                 None \<Rightarrow> (create_payload alert, log_event Call_create_payload w)
               | Some p \<Rightarrow> (p, w)) = (?p, ?w1)"
    by (cases payload) simp_all
  show ?thesis
  proof (cases "int (length ?p) > APNS_MAX_NOTIFICATION_SIZE config")
    case True
    with assms split_payload have "e = APNSDataOverflow (''Notification body cannot exceed ''
            @ str_int (APNS_MAX_NOTIFICATION_SIZE config) @ '' bytes'')"
      by (simp add: send_def Let_def)
    with True show ?thesis by blast
  next
    case False
    note small = this
    show ?thesis
    proof (cases "pack_frame token ?p identifier ?exp priority")
      case (Inl x)
      with assms split_payload split_expiration small have "e = x"
        by (simp add: send_def Let_def)
      with pack_frame_error [OF Inl] show ?thesis by blast
    next
      case (Inr frame)
      show ?thesis
      proof (cases connection)
        case (Some c)
        with assms split_payload split_expiration small Inr have False
          by (simp add: send_def Let_def)
        then show ?thesis ..
      next
        case None
        show ?thesis
        proof (cases "create_push_socket config ?w2")
          case (Pair r w3)
          show ?thesis
          proof (cases r)
            case (Inl x)
            with assms split_payload split_expiration small Inr None Pair have "e = x"
              by (simp add: send_def Let_def)
            moreover from Pair Inl have "fst (create_socket (APNS_HOST config) (APNS_PORT config)
                (APNS_CERTIFICATE config) ?w2) = Inl x"
              by (simp add: create_push_socket_def)
            ultimately show ?thesis using create_socket_error by blast
          next
            case (Inr c)
            with assms split_payload split_expiration small
              \<open>pack_frame token ?p identifier ?exp priority = Inr frame\<close> None Pair
            have "fst (check_errors c config (socket_write c frame w3)) = Inl e"
              by (simp add: send_def Let_def split: prod.splits)
            from check_errors_error [OF this] show ?thesis by blast
          qed
        qed
      qed
    qed
  qed
qed

lemma send_invalid_token:
  "\<not> is_valid_token token \<Longrightarrow>
   send create_payload token alert config identifier expiration priority payload connection w
   = (Inl (APNSError ''Invalid token format. Expected 64 character hex string.''), w)"
  by (simp add: send_def)

lemma send_oversize:
  "is_valid_token token \<Longrightarrow>
   int (length (case payload of None \<Rightarrow> create_payload alert | Some p \<Rightarrow> p))
     > APNS_MAX_NOTIFICATION_SIZE config \<Longrightarrow>
   send create_payload token alert config identifier expiration priority payload connection w
   = (Inl (APNSDataOverflow (''Notification body cannot exceed ''
            @ str_int (APNS_MAX_NOTIFICATION_SIZE config) @ '' bytes'')),
      case payload of None \<Rightarrow> w\<lparr>trace := trace w @ [Call_create_payload]\<rparr> | Some p \<Rightarrow> w)"
  by (cases payload) (simp_all add: send_def Let_def log_event_def)


text \<open>
  C5: \<^verbatim>\<open>send\<close> raises the error of an invalid token exactly when the token is not 64
  characters of hexadecimal digits; a token of exactly 64 hexadecimal digits passes the
  validation. The rejection leaves the world as it was: no payload is built, no frame
  is packed, nothing is opened or written.
\<close>

theorem send_rejects_exactly_malformed_tokens:
  "(is_valid_token token \<longleftrightarrow> length token = 64 \<and> (\<forall>ch\<in>set token. is_hex_digit ch)) \<and>
   (fst (send create_payload token alert config identifier expiration priority payload
           connection w)
      = Inl (APNSError ''Invalid token format. Expected 64 character hex string.'')
    \<longleftrightarrow> \<not> (length token = 64 \<and> (\<forall>ch\<in>set token. is_hex_digit ch))) \<and>
   (\<not> (length token = 64 \<and> (\<forall>ch\<in>set token. is_hex_digit ch)) \<longrightarrow>
      send create_payload token alert config identifier expiration priority payload
        connection w
      = (Inl (APNSError ''Invalid token format. Expected 64 character hex string.''), w))"
proof -
  let ?wf = "length token = 64 \<and> (\<forall>ch\<in>set token. is_hex_digit ch)"
  let ?invalid = "APNSError ''Invalid token format. Expected 64 character hex string.''"
  let ?send = "send create_payload token alert config identifier expiration priority payload
                 connection w"
  have valid: "is_valid_token token \<longleftrightarrow> ?wf"
    by (rule is_valid_token_iff)
  have rejected: "?send = (Inl ?invalid, w)" if "\<not> ?wf"
    using that valid by (simp add: send_invalid_token)
  have passed: "fst ?send \<noteq> Inl ?invalid" if "?wf"
  proof
    assume "fst ?send = Inl ?invalid"
    moreover from that valid have "is_valid_token token" by simp
    ultimately show False
      by (auto dest!: send_error_valid_token)
  qed
  show ?thesis
  proof (cases "?wf")
    case True
    with valid passed [OF True] show ?thesis by simp
  next
    case False
    with valid rejected [OF False] show ?thesis by simp
  qed
qed

text \<open>A token of 64 digits, one of 63 digits, and one with the letter \<open>g\<close>.\<close>

theorem send_rejects_exactly_malformed_tokens_witness:
  "is_valid_token ''a1a1a1a1a1a1a1a1a1a1a1a1a1a1a1a1a1a1a1a1a1a1a1a1a1a1a1a1a1a1a1a1'' \<and>
   fst (send (\<lambda>alert. [104, 105]) ''a1a1a1a1a1a1a1a1a1a1a1a1a1a1a1a1a1a1a1a1a1a1a1a1a1a1a1a1a1a1a1a1''
          ''hi'' example_config 0 None 10 None None example_world)
     \<noteq> Inl (APNSError ''Invalid token format. Expected 64 character hex string.'') \<and>
   \<not> is_valid_token ''a1a1a1a1a1a1a1a1a1a1a1a1a1a1a1a1a1a1a1a1a1a1a1a1a1a1a1a1a1a1a1a'' \<and>
   \<not> is_valid_token ''g1a1a1a1a1a1a1a1a1a1a1a1a1a1a1a1a1a1a1a1a1a1a1a1a1a1a1a1a1a1a1a1'' \<and>
   fst (send (\<lambda>alert. [104, 105]) ''g1a1a1a1a1a1a1a1a1a1a1a1a1a1a1a1a1a1a1a1a1a1a1a1a1a1a1a1a1a1a1a1''
          ''hi'' example_config 0 None 10 None None example_world)
     = Inl (APNSError ''Invalid token format. Expected 64 character hex string.'') \<and>
   trace (snd (send (\<lambda>alert. [104, 105])
                 ''g1a1a1a1a1a1a1a1a1a1a1a1a1a1a1a1a1a1a1a1a1a1a1a1a1a1a1a1a1a1a1a1''
                 ''hi'' example_config 0 None 10 None None example_world))
     = []"
proof -
  let ?good = "''a1a1a1a1a1a1a1a1a1a1a1a1a1a1a1a1a1a1a1a1a1a1a1a1a1a1a1a1a1a1a1a1''"
  let ?short = "''a1a1a1a1a1a1a1a1a1a1a1a1a1a1a1a1a1a1a1a1a1a1a1a1a1a1a1a1a1a1a1a''"
  let ?bad = "''g1a1a1a1a1a1a1a1a1a1a1a1a1a1a1a1a1a1a1a1a1a1a1a1a1a1a1a1a1a1a1a1''"
  have v: "is_valid_token ?good" "\<not> is_valid_token ?short" "\<not> is_valid_token ?bad"
    by code_simp+
  have t: "trace example_world = []"
    by (simp add: example_world_def)
  from v t
    send_rejects_exactly_malformed_tokens
      [of ?good "\<lambda>alert. [104, 105]" "''hi''" example_config 0 None 10 None None example_world]
    send_rejects_exactly_malformed_tokens
      [of ?bad "\<lambda>alert. [104, 105]" "''hi''" example_config 0 None 10 None None example_world]
  show ?thesis
    by (simp del: set_simps)
qed


text \<open>
  C6: \<^verbatim>\<open>send\<close> with a payload of exactly the configured maximum size does not raise
  \<^verbatim>\<open>APNSDataOverflow\<close>, and with one byte more it does (the token being valid, since
  the token is looked at first). The overflow is raised exactly when the length of the
  payload itself is above the maximum, whatever the identifier, expiration and priority
  are, and before the frame is packed: the world is as it was (but for the record of the
  call that built the payload, when none was handed in).
\<close>

theorem send_payload_size_limit:
  "(int (length payload) = APNS_MAX_NOTIFICATION_SIZE config \<longrightarrow>
      (\<forall>m. fst (send create_payload token alert config identifier expiration priority
                   (Some payload) connection w) \<noteq> Inl (APNSDataOverflow m))) \<and>
   (is_valid_token token \<and> int (length payload) = APNS_MAX_NOTIFICATION_SIZE config + 1 \<longrightarrow>
      send create_payload token alert config identifier expiration priority
        (Some payload) connection w
      = (Inl (APNSDataOverflow (''Notification body cannot exceed ''
                @ str_int (APNS_MAX_NOTIFICATION_SIZE config) @ '' bytes'')), w)) \<and>
   (is_valid_token token \<longrightarrow>
      ((\<exists>m. fst (send create_payload token alert config identifier expiration priority
                    (Some payload) connection w) = Inl (APNSDataOverflow m))
       \<longleftrightarrow> int (length payload) > APNS_MAX_NOTIFICATION_SIZE config)) \<and>
   (is_valid_token token \<longrightarrow>
      ((\<exists>m. fst (send create_payload token alert config identifier expiration priority
                    None connection w) = Inl (APNSDataOverflow m))
       \<longleftrightarrow> int (length (create_payload alert)) > APNS_MAX_NOTIFICATION_SIZE config)) \<and>
   (is_valid_token token \<and>
    int (length (create_payload alert)) > APNS_MAX_NOTIFICATION_SIZE config \<longrightarrow>
      send create_payload token alert config identifier expiration priority None connection w
      = (Inl (APNSDataOverflow (''Notification body cannot exceed ''
                @ str_int (APNS_MAX_NOTIFICATION_SIZE config) @ '' bytes'')),
         w\<lparr>trace := trace w @ [Call_create_payload]\<rparr>))"
proof (cases "is_valid_token token")
  case False
  then have "send create_payload token alert config identifier expiration priority
               (Some payload) connection w
    = (Inl (APNSError ''Invalid token format. Expected 64 character hex string.''), w)"
    by (rule send_invalid_token)
  with False show ?thesis by simp
next
  case True
  note assms = this
  let ?max = "APNS_MAX_NOTIFICATION_SIZE config"
  let ?overflow = "APNSDataOverflow (''Notification body cannot exceed ''
                @ str_int (APNS_MAX_NOTIFICATION_SIZE config) @ '' bytes'')"
  let ?send = "send create_payload token alert config identifier expiration priority"
  have big: "?send (Some payload) connection w = (Inl ?overflow, w)"
    if "int (length payload) > ?max"
    using send_oversize [OF assms, where payload = "Some payload" and config = config] that
    by simp
  have big_built: "?send None connection w
      = (Inl ?overflow, w\<lparr>trace := trace w @ [Call_create_payload]\<rparr>)"
    if "int (length (create_payload alert)) > ?max"
    using send_oversize [OF assms, where payload = None and config = config
        and create_payload = create_payload and alert = alert] that
    by simp
  have small: "fst (?send (Some payload) connection w) \<noteq> Inl (APNSDataOverflow m)"
    if "int (length payload) \<le> ?max" for m
  proof
    assume "fst (?send (Some payload) connection w) = Inl (APNSDataOverflow m)"
    from send_error_valid_token [OF assms this] that show False by simp
  qed
  have small_built: "fst (?send None connection w) \<noteq> Inl (APNSDataOverflow m)"
    if "int (length (create_payload alert)) \<le> ?max" for m
  proof
    assume "fst (?send None connection w) = Inl (APNSDataOverflow m)"
    from send_error_valid_token [OF assms this] that show False by simp
  qed
  have 1: "int (length payload) = ?max \<longrightarrow>
      (\<forall>m. fst (?send (Some payload) connection w) \<noteq> Inl (APNSDataOverflow m))"
    using small by simp
  have 2: "int (length payload) = ?max + 1 \<longrightarrow>
      ?send (Some payload) connection w = (Inl ?overflow, w)"
    using big by simp
  have 3: "(\<exists>m. fst (?send (Some payload) connection w) = Inl (APNSDataOverflow m))
      \<longleftrightarrow> int (length payload) > ?max"
  proof (cases "int (length payload) > ?max")
    case True
    with big [OF True] show ?thesis by simp
  next
    case False
    with small show ?thesis by simp
  qed
  have 4: "(\<exists>m. fst (?send None connection w) = Inl (APNSDataOverflow m))
      \<longleftrightarrow> int (length (create_payload alert)) > ?max"
  proof (cases "int (length (create_payload alert)) > ?max")
    case True
    with big_built [OF True] show ?thesis by simp
  next
    case False
    with small_built show ?thesis by simp
  qed
  have 5: "int (length (create_payload alert)) > ?max \<longrightarrow>
      ?send None connection w = (Inl ?overflow, w\<lparr>trace := trace w @ [Call_create_payload]\<rparr>)"
    using big_built by simp
  from 1 2 3 4 5 show ?thesis by blast
qed

lemma str_int_5: "str_int 5 = ''5''"
  by (simp add: str_int_def str_nat.simps digit_char_def)

text \<open>
  A maximum size of 5: the payloads \<open>hello\<close> and \<open>hello!\<close> handed in, and
  \<open>hello!\<close> built by the call.
\<close>

theorem send_payload_size_limit_witness:
  "(\<forall>m. fst (send (\<lambda>alert. []) ''a1a1a1a1a1a1a1a1a1a1a1a1a1a1a1a1a1a1a1a1a1a1a1a1a1a1a1a1a1a1a1a1''
          ''hi'' (example_config\<lparr>APNS_MAX_NOTIFICATION_SIZE := 5\<rparr>) 0 None 10
          (Some [104, 101, 108, 108, 111])
          (Some (Connection ''gateway.push.apple.com'' 2195)) example_world)
     \<noteq> Inl (APNSDataOverflow m)) \<and>
   fst (send (\<lambda>alert. []) ''a1a1a1a1a1a1a1a1a1a1a1a1a1a1a1a1a1a1a1a1a1a1a1a1a1a1a1a1a1a1a1a1''
          ''hi'' (example_config\<lparr>APNS_MAX_NOTIFICATION_SIZE := 5\<rparr>) 0 None 10
          (Some [104, 101, 108, 108, 111, 33])
          (Some (Connection ''gateway.push.apple.com'' 2195)) example_world)
     = Inl (APNSDataOverflow ''Notification body cannot exceed 5 bytes'') \<and>
   trace (snd (send (\<lambda>alert. [])
          ''a1a1a1a1a1a1a1a1a1a1a1a1a1a1a1a1a1a1a1a1a1a1a1a1a1a1a1a1a1a1a1a1''
          ''hi'' (example_config\<lparr>APNS_MAX_NOTIFICATION_SIZE := 5\<rparr>) 0 None 10
          (Some [104, 101, 108, 108, 111, 33])
          (Some (Connection ''gateway.push.apple.com'' 2195)) example_world))
     = [] \<and>
   fst (send (\<lambda>alert. [104, 101, 108, 108, 111, 33])
          ''a1a1a1a1a1a1a1a1a1a1a1a1a1a1a1a1a1a1a1a1a1a1a1a1a1a1a1a1a1a1a1a1''
          ''hi'' (example_config\<lparr>APNS_MAX_NOTIFICATION_SIZE := 5\<rparr>) 0 None 10 None
          (Some (Connection ''gateway.push.apple.com'' 2195)) example_world)
     = Inl (APNSDataOverflow ''Notification body cannot exceed 5 bytes'') \<and>
   trace (snd (send (\<lambda>alert. [104, 101, 108, 108, 111, 33])
          ''a1a1a1a1a1a1a1a1a1a1a1a1a1a1a1a1a1a1a1a1a1a1a1a1a1a1a1a1a1a1a1a1''
          ''hi'' (example_config\<lparr>APNS_MAX_NOTIFICATION_SIZE := 5\<rparr>) 0 None 10 None
          (Some (Connection ''gateway.push.apple.com'' 2195)) example_world))
     = [Call_create_payload]"
proof -
  let ?good = "''a1a1a1a1a1a1a1a1a1a1a1a1a1a1a1a1a1a1a1a1a1a1a1a1a1a1a1a1a1a1a1a1''"
  let ?config = "example_config\<lparr>APNS_MAX_NOTIFICATION_SIZE := 5\<rparr>"
  have v: "is_valid_token ?good"
    by code_simp
  have m: "APNS_MAX_NOTIFICATION_SIZE ?config = 5"
    by (simp add: example_config_def)
  have t: "trace example_world = []"
    by (simp add: example_world_def)
  from v m t str_int_5
    send_payload_size_limit
      [where token = ?good and payload = "[104, 101, 108, 108, 111]" and config = ?config
        and create_payload = "\<lambda>alert. []" and alert = "''hi''" and ?identifier = 0
        and expiration = None and priority = 10
        and connection = "Some (Connection ''gateway.push.apple.com'' 2195)"
        and w = example_world]
    send_payload_size_limit
      [where token = ?good and payload = "[104, 101, 108, 108, 111, 33]" and config = ?config
        and create_payload = "\<lambda>alert. []" and alert = "''hi''" and ?identifier = 0
        and expiration = None and priority = 10
        and connection = "Some (Connection ''gateway.push.apple.com'' 2195)"
        and w = example_world]
    send_payload_size_limit
      [where token = ?good and config = ?config
        and create_payload = "\<lambda>alert. [104, 101, 108, 108, 111, 33]" and alert = "''hi''"
        and ?identifier = 0 and expiration = None and priority = 10
        and connection = "Some (Connection ''gateway.push.apple.com'' 2195)"
        and w = example_world]
  show ?thesis
    by simp
qed

subsection \<open>Sending to many devices\<close>

lemma pack_frame_the_frame:
  assumes "is_valid_token token" and "length payload \<le> 65535"
    and "0 \<le> identifier" and "identifier < 2 ^ 32"
    and "0 \<le> expiration" and "expiration < 2 ^ 32"
    and "0 \<le> priority" and "priority < 2 ^ 8"
  shows "pack_frame token payload identifier expiration priority
         = Inr (the_frame token payload identifier expiration priority)"
proof -
  from assms(1) obtain token_bin where "unhexlify token = Inr token_bin" "length token_bin = 32"
    using valid_token_unhexlify by blast
  from pack_frame_bytes [OF this assms(2-)] show ?thesis
    by (simp add: the_frame_def)
qed

lemma send_on_connection:
  assumes "is_valid_token token"
    and "int (length payload) \<le> APNS_MAX_NOTIFICATION_SIZE config"
    and "pack_frame token payload identifier (expiration_at expiration config w 0) priority
         = Inr frame"
  shows "send create_payload token alert config identifier expiration priority
           (Some payload) (Some c) w
         = (Inr (), w\<lparr>ticks := ticks w + readings expiration 1,
                       trace := trace w @ [Write c frame]\<rparr>)"
  using assms
  by (cases expiration)
     (simp_all add: send_def Let_def expiration_at_def readings_def time_time_def
        socket_write_def log_event_def)

lemma send_bulk_loop_append:
  "send_bulk_loop create_payload alert config expiration priority payload c (xs @ ys) w =
     (case send_bulk_loop create_payload alert config expiration priority payload c xs w of
        (Inl e, w1) \<Rightarrow> (Inl e, w1)
      | (Inr u, w1) \<Rightarrow>
          send_bulk_loop create_payload alert config expiration priority payload c ys w1)"
  by (induction xs arbitrary: w) (auto split: prod.splits sum.splits)

lemma send_bulk_loop_writes:
  assumes "\<forall>token\<in>set tokens. is_valid_token token"
    and "int (length payload) \<le> APNS_MAX_NOTIFICATION_SIZE config"
    and "length payload \<le> 65535"
    and "0 \<le> priority" and "priority < 2 ^ 8"
    and "n + length tokens \<le> 2 ^ 32"
    and "\<forall>i<length tokens. 0 \<le> expiration_at expiration config w i
                             \<and> expiration_at expiration config w i < 2 ^ 32"
  shows "send_bulk_loop create_payload alert config expiration priority payload c
           (enumerate n tokens) w
         = (Inr (),
            w\<lparr>ticks := ticks w + readings expiration (length tokens),
              trace := trace w @
                map (\<lambda>i. Write c (the_frame (tokens ! i) payload (int (n + i))
                                    (expiration_at expiration config w i) priority))
                    [0..<length tokens]\<rparr>)"
  using assms
proof (induction tokens arbitrary: n w)
  case Nil
  then show ?case by (simp add: readings_def split: option.splits)
next
  case (Cons token tokens)
  let ?w1 = "w\<lparr>ticks := ticks w + readings expiration 1,
               trace := trace w @ [Write c (the_frame token payload (int n)
                                     (expiration_at expiration config w 0) priority)]\<rparr>"
  have shift: "expiration_at expiration config ?w1 i = expiration_at expiration config w (Suc i)"
    for i
    by (simp add: expiration_at_def readings_def split: option.splits)
  have range0: "0 \<le> expiration_at expiration config w 0"
    "expiration_at expiration config w 0 < 2 ^ 32"
    using Cons.prems(7) by auto
  have ident: "0 \<le> int n" "int n < 2 ^ 32"
    using Cons.prems(6) by auto
  have frame: "pack_frame token payload (int n) (expiration_at expiration config w 0) priority
    = Inr (the_frame token payload (int n) (expiration_at expiration config w 0) priority)"
    using Cons.prems(1,3,4,5) range0 ident by (intro pack_frame_the_frame) auto
  have first: "send create_payload token alert config (int n) expiration priority
                 (Some payload) (Some c) w = (Inr (), ?w1)"
    using Cons.prems(1,2) frame by (intro send_on_connection) auto
  have rest: "send_bulk_loop create_payload alert config expiration priority payload c
           (enumerate (Suc n) tokens) ?w1
         = (Inr (),
            ?w1\<lparr>ticks := ticks ?w1 + readings expiration (length tokens),
              trace := trace ?w1 @
                map (\<lambda>i. Write c (the_frame (tokens ! i) payload (int (Suc n + i))
                                    (expiration_at expiration config ?w1 i) priority))
                    [0..<length tokens]\<rparr>)"
    using Cons.prems shift by (intro Cons.IH) auto
  have upt: "[0..<length (token # tokens)] = 0 # map Suc [0..<length tokens]"
    by (simp add: upt_conv_Cons map_Suc_upt del: upt_Suc)
  have "send_bulk_loop create_payload alert config expiration priority payload c
           (enumerate n (token # tokens)) w
        = send_bulk_loop create_payload alert config expiration priority payload c
           (enumerate (Suc n) tokens) ?w1"
    by (simp add: first)
  also note rest
  also have "?w1\<lparr>ticks := ticks ?w1 + readings expiration (length tokens),
              trace := trace ?w1 @
                map (\<lambda>i. Write c (the_frame (tokens ! i) payload (int (Suc n + i))
                                    (expiration_at expiration config ?w1 i) priority))
                    [0..<length tokens]\<rparr>
     = w\<lparr>ticks := ticks w + readings expiration (length (token # tokens)),
              trace := trace w @
                map (\<lambda>i. Write c (the_frame ((token # tokens) ! i) payload (int (n + i))
                                    (expiration_at expiration config w i) priority))
                    [0..<length (token # tokens)]\<rparr>"
    unfolding upt shift
    by (simp add: readings_def comp_def add.commute add.left_commute split: option.splits)
  finally show ?case .
qed


lemma create_push_socket_ok:
  "APNS_CERTIFICATE config \<noteq> [] \<Longrightarrow> unreadable w (APNS_CERTIFICATE config) = None \<Longrightarrow>
   create_push_socket config w
   = (Inr (Connection (APNS_HOST config) (APNS_PORT config)),
      w\<lparr>timeout := None,
        trace := trace w @ [Read_file (APNS_CERTIFICATE config),
                            Connect (APNS_HOST config) (APNS_PORT config)
                              (APNS_CERTIFICATE config)]\<rparr>)"
  by (simp add: create_push_socket_def create_socket_def log_event_def)

lemma check_errors_trace:
  "trace (snd (check_errors c config w))
   = trace w @ Call_check_errors #
       (case APNS_ERROR_TIMEOUT config of
          None \<Rightarrow> []
        | Some t \<Rightarrow> [Settimeout c (Some t), Recv c 6, Settimeout c (timeout w)])"
  by (cases "APNS_ERROR_TIMEOUT config") (simp_all add: check_errors_disabled check_errors_world)

lemma send_bulk_loop_prefix:
  assumes p: "p = (case payload of None \<Rightarrow> create_payload alert | Some q \<Rightarrow> q)"
    and c: "c = Connection (APNS_HOST config) (APNS_PORT config)"
    and valid: "\<forall>token\<in>set tokens. is_valid_token token"
    and size: "int (length p) \<le> APNS_MAX_NOTIFICATION_SIZE config" "length p \<le> 65535"
    and prio: "0 \<le> priority" "priority < 2 ^ 8"
    and count: "length tokens \<le> 2 ^ 32"
    and expi: "\<forall>i<length tokens. 0 \<le> expiration_at expiration config w i
                                  \<and> expiration_at expiration config w i < 2 ^ 32"
    and cert: "APNS_CERTIFICATE config \<noteq> []" "unreadable w (APNS_CERTIFICATE config) = None"
    and wp: "wp = (case payload of None \<Rightarrow> log_event Call_create_payload w | Some q \<Rightarrow> w)"
  shows "\<exists>w2. create_push_socket config wp = (Inr c, w2) \<and>
           send_bulk_loop create_payload alert config expiration priority p c
             (enumerate 0 tokens) w2
           = (Inr (),
              bulk_written config payload expiration
                (map (\<lambda>i. the_frame (tokens ! i) p (int i)
                            (expiration_at expiration config w i) priority)
                   [0..<length tokens]) w)"
proof -
  let ?wq = "wp\<lparr>timeout := None,
        trace := trace wp @ [Read_file (APNS_CERTIFICATE config),
                            Connect (APNS_HOST config) (APNS_PORT config)
                              (APNS_CERTIFICATE config)]\<rparr>"
  have u: "unreadable wp = unreadable w" "clock wp = clock w" "ticks wp = ticks w"
    "trace wp = trace w @ (case payload of None \<Rightarrow> [Call_create_payload] | Some p \<Rightarrow> [])"
    unfolding wp by (simp_all add: log_event_def split: option.splits)
  have sock: "create_push_socket config wp = (Inr c, ?wq)"
    unfolding c using cert u(1) by (intro create_push_socket_ok) simp_all
  have e: "expiration_at expiration config ?wq i = expiration_at expiration config w i" for i
    by (simp add: expiration_at_def u split: option.splits)
  have "send_bulk_loop create_payload alert config expiration priority p c
             (enumerate 0 tokens) ?wq
         = (Inr (),
            ?wq\<lparr>ticks := ticks ?wq + readings expiration (length tokens),
              trace := trace ?wq @
                map (\<lambda>i. Write c (the_frame (tokens ! i) p (int (0 + i))
                                    (expiration_at expiration config ?wq i) priority))
                    [0..<length tokens]\<rparr>)"
    using valid size prio count expi e by (intro send_bulk_loop_writes) simp_all
  also have "?wq\<lparr>ticks := ticks ?wq + readings expiration (length tokens),
              trace := trace ?wq @
                map (\<lambda>i. Write c (the_frame (tokens ! i) p (int (0 + i))
                                    (expiration_at expiration config ?wq i) priority))
                    [0..<length tokens]\<rparr>
     = bulk_written config payload expiration
                (map (\<lambda>i. the_frame (tokens ! i) p (int i)
                            (expiration_at expiration config w i) priority)
                   [0..<length tokens]) w"
    unfolding e bulk_written_def
    by (simp add: u c comp_def wp log_event_def split: option.splits)
  finally show ?thesis using sock by blast
qed

text \<open>
  C8: for \<open>N\<close> valid tokens (with a payload within the maximum size and the 2-byte
  item length, an expiration and a priority in range, at most \<open>2 ^ 32\<close> tokens and
  a readable certificate), \<^verbatim>\<open>send_bulk\<close> builds the payload once, when none is handed
  in, and packs every frame with this payload; it opens one connection, writes the
  \<open>N\<close> frames in the order of the tokens, the frame of the token at position \<open>i\<close>
  with the identifier \<open>i\<close>, and then calls \<^verbatim>\<open>check_errors\<close> once, on the world in
  which all frames are written, and closes the connection. No error check stands
  between the writes.
\<close>

theorem send_bulk_trace:
  assumes p: "p = (case payload of None \<Rightarrow> create_payload alert | Some q \<Rightarrow> q)"
    and c: "c = Connection (APNS_HOST config) (APNS_PORT config)"
    and valid: "\<forall>token\<in>set tokens. is_valid_token token"
    and size: "int (length p) \<le> APNS_MAX_NOTIFICATION_SIZE config" "length p \<le> 65535"
    and prio: "0 \<le> priority" "priority < 2 ^ 8"
    and count: "length tokens \<le> 2 ^ 32"
    and expi: "\<forall>i<length tokens. 0 \<le> expiration_at expiration config w i
                                  \<and> expiration_at expiration config w i < 2 ^ 32"
    and cert: "APNS_CERTIFICATE config \<noteq> []" "unreadable w (APNS_CERTIFICATE config) = None"
    and frames: "frames = map (\<lambda>i. the_frame (tokens ! i) p (int i)
                                   (expiration_at expiration config w i) priority)
                            [0..<length tokens]"
  shows "length frames = length tokens \<and>
    (\<forall>i<length tokens.
        pack_frame (tokens ! i) p (int i) (expiration_at expiration config w i) priority
        = Inr (frames ! i)) \<and>
    send_bulk create_payload tokens alert config payload expiration priority w
      = (fst (check_errors c config (bulk_written config payload expiration frames w)),
         close c (snd (check_errors c config (bulk_written config payload expiration frames w))))
    \<and>
    trace (snd (send_bulk create_payload tokens alert config payload expiration priority w))
      = trace w
        @ (case payload of None \<Rightarrow> [Call_create_payload] | Some q \<Rightarrow> [])
        @ [Read_file (APNS_CERTIFICATE config),
           Connect (APNS_HOST config) (APNS_PORT config) (APNS_CERTIFICATE config)]
        @ map (Write c) frames
        @ Call_check_errors #
          (case APNS_ERROR_TIMEOUT config of
             None \<Rightarrow> []
           | Some t \<Rightarrow> [Settimeout c (Some t), Recv c 6, Settimeout c None])
        @ [Close c]"
proof -
  let ?w1 = "case payload of None \<Rightarrow> log_event Call_create_payload w | Some q \<Rightarrow> w"
  let ?ww = "bulk_written config payload expiration frames w"
  have len: "length frames = length tokens"
    by (simp add: frames)
  have packed: "pack_frame (tokens ! i) p (int i) (expiration_at expiration config w i) priority
        = Inr (frames ! i)" if "i < length tokens" for i
  proof -
    from that valid have "is_valid_token (tokens ! i)" by simp
    moreover from that count have "int i < 2 ^ 32" by simp
    moreover from that expi have "0 \<le> expiration_at expiration config w i"
      "expiration_at expiration config w i < 2 ^ 32" by simp_all
    ultimately have "pack_frame (tokens ! i) p (int i) (expiration_at expiration config w i) priority
        = Inr (the_frame (tokens ! i) p (int i) (expiration_at expiration config w i) priority)"
      using size(2) prio by (intro pack_frame_the_frame) simp_all
    with that show ?thesis by (simp add: frames)
  qed
  from send_bulk_loop_prefix
         [where wp = ?w1 and create_payload = create_payload and alert = alert
            and payload = payload and p = p and w = w,
          OF p c valid size prio count expi cert refl]
  obtain w2 where sock: "create_push_socket config ?w1 = (Inr c, w2)"
    and loop: "send_bulk_loop create_payload alert config expiration priority p c
             (enumerate 0 tokens) w2 = (Inr (), ?ww)"
    unfolding frames by blast
  have split_payload: "(case payload of
               None \<Rightarrow> (create_payload alert, log_event Call_create_payload w)
             | Some q \<Rightarrow> (q, w)) = (p, ?w1)"
    unfolding p by (cases payload) simp_all
  have result: "send_bulk create_payload tokens alert config payload expiration priority w
      = (fst (check_errors c config ?ww), close c (snd (check_errors c config ?ww)))"
    by (simp add: send_bulk_def split_payload sock loop split: prod.splits)
  have t: "timeout ?ww = None"
    "trace ?ww = trace w
        @ (case payload of None \<Rightarrow> [Call_create_payload] | Some q \<Rightarrow> [])
        @ [Read_file (APNS_CERTIFICATE config),
           Connect (APNS_HOST config) (APNS_PORT config) (APNS_CERTIFICATE config)]
        @ map (Write c) frames"
    by (simp_all add: bulk_written_def c)
  have "trace (snd (send_bulk create_payload tokens alert config payload expiration priority w))
      = trace (snd (check_errors c config ?ww)) @ [Close c]"
    by (simp add: result close_def log_event_def)
  also have "\<dots> = trace w
        @ (case payload of None \<Rightarrow> [Call_create_payload] | Some q \<Rightarrow> [])
        @ [Read_file (APNS_CERTIFICATE config),
           Connect (APNS_HOST config) (APNS_PORT config) (APNS_CERTIFICATE config)]
        @ map (Write c) frames
        @ Call_check_errors #
          (case APNS_ERROR_TIMEOUT config of
             None \<Rightarrow> []
           | Some t \<Rightarrow> [Settimeout c (Some t), Recv c 6, Settimeout c None])
        @ [Close c]"
    by (simp add: check_errors_trace t split: option.splits)
  finally show ?thesis using len packed result by blast
qed


text \<open>Two tokens: the whole trace, with the identifiers 0 and 1 in the frames.\<close>

theorem send_bulk_trace_witness:
  "trace (snd (send_bulk (\<lambda>alert. [104, 105])
                 [''a1a1a1a1a1a1a1a1a1a1a1a1a1a1a1a1a1a1a1a1a1a1a1a1a1a1a1a1a1a1a1a1'',
                  ''b2b2b2b2b2b2b2b2b2b2b2b2b2b2b2b2b2b2b2b2b2b2b2b2b2b2b2b2b2b2b2b2'']
                 ''hi'' example_config None None 10 example_world))
   = [Call_create_payload, Read_file ''cert.pem'',
      Connect ''gateway.push.apple.com'' 2195 ''cert.pem'',
      Write (Connection ''gateway.push.apple.com'' 2195)
        ([2, 0, 0, 0, 58, 1, 0, 32, 161, 161, 161, 161, 161, 161, 161, 161, 161, 161,
          161, 161, 161, 161, 161, 161, 161, 161, 161, 161, 161, 161, 161, 161, 161,
          161, 161, 161, 161, 161, 161, 161, 2, 0, 2, 104, 105, 3, 0, 4, 0, 0, 0, 0, 4,
          0, 4, 59, 194, 87, 0, 5, 0, 1, 10]),
      Write (Connection ''gateway.push.apple.com'' 2195)
        ([2, 0, 0, 0, 58, 1, 0, 32, 178, 178, 178, 178, 178, 178, 178, 178, 178, 178,
          178, 178, 178, 178, 178, 178, 178, 178, 178, 178, 178, 178, 178, 178, 178,
          178, 178, 178, 178, 178, 178, 178, 2, 0, 2, 104, 105, 3, 0, 4, 0, 0, 0, 1, 4,
          0, 4, 59, 194, 87, 1, 5, 0, 1, 10]),
      Call_check_errors,
      Settimeout (Connection ''gateway.push.apple.com'' 2195) (Some 10),
      Recv (Connection ''gateway.push.apple.com'' 2195) 6,
      Settimeout (Connection ''gateway.push.apple.com'' 2195) None,
      Close (Connection ''gateway.push.apple.com'' 2195)]"
proof -
  let ?a = "''a1a1a1a1a1a1a1a1a1a1a1a1a1a1a1a1a1a1a1a1a1a1a1a1a1a1a1a1a1a1a1a1''"
  let ?b = "''b2b2b2b2b2b2b2b2b2b2b2b2b2b2b2b2b2b2b2b2b2b2b2b2b2b2b2b2b2b2b2b2''"
  let ?c = "Connection ''gateway.push.apple.com'' 2195"
  have v: "\<forall>token\<in>set [?a, ?b]. is_valid_token token"
    by code_simp
  have e: "expiration_at None example_config example_world 0 = 1002592000"
    "expiration_at None example_config example_world (Suc 0) = 1002592001"
    by (simp_all add: expiration_at_def example_config_def example_world_def)
  have range: "\<forall>i<length [?a, ?b]. 0 \<le> expiration_at None example_config example_world i
                    \<and> expiration_at None example_config example_world i < 2 ^ 32"
    by (simp add: expiration_at_def example_config_def example_world_def)
  have f0: "the_frame ?a [104, 105] 0 1002592000 10
    = [2, 0, 0, 0, 58, 1, 0, 32, 161, 161, 161, 161, 161, 161, 161, 161, 161, 161,
          161, 161, 161, 161, 161, 161, 161, 161, 161, 161, 161, 161, 161, 161, 161,
          161, 161, 161, 161, 161, 161, 161, 2, 0, 2, 104, 105, 3, 0, 4, 0, 0, 0, 0, 4,
          0, 4, 59, 194, 87, 0, 5, 0, 1, 10]"
    by code_simp
  have f1: "the_frame ?b [104, 105] 1 1002592001 10
    = [2, 0, 0, 0, 58, 1, 0, 32, 178, 178, 178, 178, 178, 178, 178, 178, 178, 178,
          178, 178, 178, 178, 178, 178, 178, 178, 178, 178, 178, 178, 178, 178, 178,
          178, 178, 178, 178, 178, 178, 178, 2, 0, 2, 104, 105, 3, 0, 4, 0, 0, 0, 1, 4,
          0, 4, 59, 194, 87, 1, 5, 0, 1, 10]"
    by code_simp
  have frames: "map (\<lambda>i. the_frame ([?a, ?b] ! i) [104, 105] (int i)
                        (expiration_at None example_config example_world i) 10)
                  [0..<length [?a, ?b]]
    = [the_frame ?a [104, 105] 0 1002592000 10, the_frame ?b [104, 105] 1 1002592001 10]"
    by (simp add: e upt_rec)
  have cfg: "APNS_CERTIFICATE example_config = ''cert.pem''"
    "APNS_HOST example_config = ''gateway.push.apple.com''"
    "APNS_PORT example_config = 2195" "APNS_ERROR_TIMEOUT example_config = Some 10"
    "APNS_MAX_NOTIFICATION_SIZE example_config = 2048"
    by (simp_all add: example_config_def)
  have wld: "unreadable example_world ''cert.pem'' = None" "trace example_world = []"
    by (simp_all add: example_world_def)
  from send_bulk_trace
         [where payload = None and create_payload = "\<lambda>alert. [104, 105]" and alert = "''hi''"
            and p = "[104, 105]" and c = ?c and config = example_config
            and tokens = "[?a, ?b]" and priority = 10 and expiration = None
            and w = example_world, OF _ _ v _ _ _ _ _ range _ _ refl,
          THEN conjunct2, THEN conjunct2, THEN conjunct2]
  show ?thesis
    unfolding frames f0 f1 by (simp add: cfg wld)
qed


lemma send_bulk_invalid_token:
  assumes p: "p = (case payload of None \<Rightarrow> create_payload alert | Some q \<Rightarrow> q)"
    and c: "c = Connection (APNS_HOST config) (APNS_PORT config)"
    and tokens: "tokens = good @ bad # rest"
    and valid: "\<forall>token\<in>set good. is_valid_token token"
    and bad: "\<not> is_valid_token bad"
    and size: "int (length p) \<le> APNS_MAX_NOTIFICATION_SIZE config" "length p \<le> 65535"
    and prio: "0 \<le> priority" "priority < 2 ^ 8"
    and count: "length good \<le> 2 ^ 32"
    and expi: "\<forall>i<length good. 0 \<le> expiration_at expiration config w i
                                \<and> expiration_at expiration config w i < 2 ^ 32"
    and cert: "APNS_CERTIFICATE config \<noteq> []" "unreadable w (APNS_CERTIFICATE config) = None"
  shows "send_bulk create_payload tokens alert config payload expiration priority w
    = (Inl (APNSError ''Invalid token format. Expected 64 character hex string.''),
       close c (bulk_written config payload expiration
                  (map (\<lambda>i. the_frame (good ! i) p (int i)
                              (expiration_at expiration config w i) priority)
                     [0..<length good]) w))"
proof -
  let ?w1 = "case payload of None \<Rightarrow> log_event Call_create_payload w | Some q \<Rightarrow> w"
  let ?ww = "bulk_written config payload expiration
                  (map (\<lambda>i. the_frame (good ! i) p (int i)
                              (expiration_at expiration config w i) priority)
                     [0..<length good]) w"
  from send_bulk_loop_prefix
         [where wp = ?w1 and create_payload = create_payload and alert = alert
            and payload = payload and p = p and w = w,
          OF p c valid size prio count expi cert refl]
  obtain w2 where sock: "create_push_socket config ?w1 = (Inr c, w2)"
    and loop: "send_bulk_loop create_payload alert config expiration priority p c
             (enumerate 0 good) w2 = (Inr (), ?ww)"
    by blast
  have split_payload: "(case payload of
               None \<Rightarrow> (create_payload alert, log_event Call_create_payload w)
             | Some q \<Rightarrow> (q, w)) = (p, ?w1)"
    unfolding p by (cases payload) simp_all
  have "send_bulk_loop create_payload alert config expiration priority p c
          (enumerate 0 tokens) w2
        = (Inl (APNSError ''Invalid token format. Expected 64 character hex string.''), ?ww)"
    unfolding tokens enumerate_append_eq send_bulk_loop_append loop
    by (simp add: send_invalid_token [OF bad])
  then show ?thesis
    by (simp add: send_bulk_def split_payload sock)
qed

lemma send_bulk_oversize:
  assumes p: "p = (case payload of None \<Rightarrow> create_payload alert | Some q \<Rightarrow> q)"
    and c: "c = Connection (APNS_HOST config) (APNS_PORT config)"
    and tokens: "tokens = first # rest"
    and valid: "is_valid_token first"
    and size: "int (length p) > APNS_MAX_NOTIFICATION_SIZE config"
    and cert: "APNS_CERTIFICATE config \<noteq> []" "unreadable w (APNS_CERTIFICATE config) = None"
  shows "send_bulk create_payload tokens alert config payload expiration priority w
    = (Inl (APNSDataOverflow (''Notification body cannot exceed ''
              @ str_int (APNS_MAX_NOTIFICATION_SIZE config) @ '' bytes'')),
       close c (bulk_written config payload expiration [] w))"
proof -
  let ?w1 = "case payload of None \<Rightarrow> log_event Call_create_payload w | Some q \<Rightarrow> w"
  have split_payload: "(case payload of
               None \<Rightarrow> (create_payload alert, log_event Call_create_payload w)
             | Some q \<Rightarrow> (q, w)) = (p, ?w1)"
    unfolding p by (cases payload) simp_all
  from cert have cert1: "unreadable ?w1 (APNS_CERTIFICATE config) = None"
    by (simp add: log_event_def split: option.splits)
  have w: "?w1\<lparr>timeout := None,
        trace := trace ?w1 @ [Read_file (APNS_CERTIFICATE config),
                            Connect (APNS_HOST config) (APNS_PORT config)
                              (APNS_CERTIFICATE config)]\<rparr>
       = bulk_written config payload expiration [] w"
    by (simp add: bulk_written_def readings_def log_event_def split: option.splits)
  show ?thesis
    using send_oversize [OF valid, where payload = "Some p" and config = config] size
    by (simp add: send_bulk_def split_payload create_push_socket_ok [OF cert(1) cert1] w
        tokens c)
qed

lemma send_bulk_invalid_first:
  assumes p: "p = (case payload of None \<Rightarrow> create_payload alert | Some q \<Rightarrow> q)"
    and c: "c = Connection (APNS_HOST config) (APNS_PORT config)"
    and tokens: "tokens = bad # rest"
    and bad: "\<not> is_valid_token bad"
    and cert: "APNS_CERTIFICATE config \<noteq> []" "unreadable w (APNS_CERTIFICATE config) = None"
  shows "send_bulk create_payload tokens alert config payload expiration priority w
    = (Inl (APNSError ''Invalid token format. Expected 64 character hex string.''),
       close c (bulk_written config payload expiration [] w))"
proof -
  let ?w1 = "case payload of None \<Rightarrow> log_event Call_create_payload w | Some q \<Rightarrow> w"
  have split_payload: "(case payload of
               None \<Rightarrow> (create_payload alert, log_event Call_create_payload w)
             | Some q \<Rightarrow> (q, w)) = (p, ?w1)"
    unfolding p by (cases payload) simp_all
  from cert have cert1: "unreadable ?w1 (APNS_CERTIFICATE config) = None"
    by (simp add: log_event_def split: option.splits)
  have w: "?w1\<lparr>timeout := None,
        trace := trace ?w1 @ [Read_file (APNS_CERTIFICATE config),
                            Connect (APNS_HOST config) (APNS_PORT config)
                              (APNS_CERTIFICATE config)]\<rparr>
       = bulk_written config payload expiration [] w"
    by (simp add: bulk_written_def readings_def log_event_def split: option.splits)
  show ?thesis
    by (simp add: send_bulk_def split_payload create_push_socket_ok [OF cert(1) cert1] w
        tokens c send_invalid_token [OF bad])
qed

text \<open>
  C1, as the code has it. \<^verbatim>\<open>send\<close> raises the error of an invalid token, and for a valid
  token the error of a payload above the maximum size, before any connection is opened
  and any byte is written: the world is as before, but for the record of the building of
  the payload. \<^verbatim>\<open>send_bulk\<close> opens its connection first and validates inside the loop.
  With a readable certificate, an invalid token behind \<open>good\<close> valid ones raises its error
  after the connection is opened and the frames of \<open>good\<close> are written; nothing is
  written for this token or a later one, no error check is made, and the connection is
  closed. When \<open>good\<close> is empty this holds whatever the payload, the priority and the
  expiration are; otherwise it holds when the frames of \<open>good\<close> can be sent: the payload
  is within the maximum size and 65535 bytes, the priority is an unsigned 8-bit value,
  each expiration time an unsigned 32-bit value, and \<open>good\<close> has at most \<open>2\<^sup>3\<^sup>2\<close> tokens.
  With a readable certificate, a payload above the maximum size raises its error at a
  valid first token, after the connection is opened and before any frame is written; no
  error check is made and the connection is closed.
\<close>

theorem validation_errors_and_io:
  assumes p: "p = (case payload of None \<Rightarrow> create_payload alert | Some q \<Rightarrow> q)"
    and c: "c = Connection (APNS_HOST config) (APNS_PORT config)"
  shows
  "(\<not> is_valid_token token \<longrightarrow>
      send create_payload token alert config identifier expiration priority payload
        connection w
      = (Inl (APNSError ''Invalid token format. Expected 64 character hex string.''), w)) \<and>
   (is_valid_token token \<and> int (length p) > APNS_MAX_NOTIFICATION_SIZE config \<longrightarrow>
      send create_payload token alert config identifier expiration priority payload
        connection w
      = (Inl (APNSDataOverflow (''Notification body cannot exceed ''
                @ str_int (APNS_MAX_NOTIFICATION_SIZE config) @ '' bytes'')),
         case payload of None \<Rightarrow> w\<lparr>trace := trace w @ [Call_create_payload]\<rparr> | Some q \<Rightarrow> w)) \<and>
   (APNS_CERTIFICATE config \<noteq> [] \<and> unreadable w (APNS_CERTIFICATE config) = None \<and>
    tokens = good @ bad # rest \<and> (\<forall>token\<in>set good. is_valid_token token) \<and>
    \<not> is_valid_token bad \<and>
    (good \<noteq> [] \<longrightarrow>
       int (length p) \<le> APNS_MAX_NOTIFICATION_SIZE config \<and> length p \<le> 65535 \<and>
       0 \<le> priority \<and> priority < 2 ^ 8 \<and> length good \<le> 2 ^ 32 \<and>
       (\<forall>i<length good. 0 \<le> expiration_at expiration config w i
                         \<and> expiration_at expiration config w i < 2 ^ 32)) \<longrightarrow>
      send_bulk create_payload tokens alert config payload expiration priority w
      = (Inl (APNSError ''Invalid token format. Expected 64 character hex string.''),
         close c (bulk_written config payload expiration
                    (map (\<lambda>i. the_frame (good ! i) p (int i)
                                (expiration_at expiration config w i) priority)
                       [0..<length good]) w))) \<and>
   (APNS_CERTIFICATE config \<noteq> [] \<and> unreadable w (APNS_CERTIFICATE config) = None \<and>
    tokens = first # rest \<and> is_valid_token first \<and>
    int (length p) > APNS_MAX_NOTIFICATION_SIZE config \<longrightarrow>
      send_bulk create_payload tokens alert config payload expiration priority w
      = (Inl (APNSDataOverflow (''Notification body cannot exceed ''
                @ str_int (APNS_MAX_NOTIFICATION_SIZE config) @ '' bytes'')),
         close c (bulk_written config payload expiration [] w)))"
proof (intro conjI impI)
  assume "\<not> is_valid_token token"
  then show "send create_payload token alert config identifier expiration priority payload
        connection w
      = (Inl (APNSError ''Invalid token format. Expected 64 character hex string.''), w)"
    by (rule send_invalid_token)
next
  assume "is_valid_token token \<and> int (length p) > APNS_MAX_NOTIFICATION_SIZE config"
  then show "send create_payload token alert config identifier expiration priority payload
        connection w
      = (Inl (APNSDataOverflow (''Notification body cannot exceed ''
                @ str_int (APNS_MAX_NOTIFICATION_SIZE config) @ '' bytes'')),
         case payload of None \<Rightarrow> w\<lparr>trace := trace w @ [Call_create_payload]\<rparr> | Some q \<Rightarrow> w)"
    unfolding p by (intro send_oversize) simp_all
next
  assume a: "APNS_CERTIFICATE config \<noteq> [] \<and> unreadable w (APNS_CERTIFICATE config) = None \<and>
    tokens = good @ bad # rest \<and> (\<forall>token\<in>set good. is_valid_token token) \<and>
    \<not> is_valid_token bad \<and>
    (good \<noteq> [] \<longrightarrow>
       int (length p) \<le> APNS_MAX_NOTIFICATION_SIZE config \<and> length p \<le> 65535 \<and>
       0 \<le> priority \<and> priority < 2 ^ 8 \<and> length good \<le> 2 ^ 32 \<and>
       (\<forall>i<length good. 0 \<le> expiration_at expiration config w i
                         \<and> expiration_at expiration config w i < 2 ^ 32))"
  show "send_bulk create_payload tokens alert config payload expiration priority w
      = (Inl (APNSError ''Invalid token format. Expected 64 character hex string.''),
         close c (bulk_written config payload expiration
                    (map (\<lambda>i. the_frame (good ! i) p (int i)
                                (expiration_at expiration config w i) priority)
                       [0..<length good]) w))"
  proof (cases "good = []")
    case True
    from a True have "send_bulk create_payload tokens alert config payload expiration priority w
      = (Inl (APNSError ''Invalid token format. Expected 64 character hex string.''),
         close c (bulk_written config payload expiration [] w))"
      by (intro send_bulk_invalid_first
            [where create_payload = create_payload and alert = alert and payload = payload
               and bad = bad and rest = rest, OF p c]) simp_all
    with True show ?thesis
      by simp
  next
    case False
    with a show ?thesis
      by (intro send_bulk_invalid_token
            [where create_payload = create_payload and alert = alert and payload = payload
               and bad = bad and rest = rest, OF p c]) simp_all
  qed
next
  assume a: "APNS_CERTIFICATE config \<noteq> [] \<and> unreadable w (APNS_CERTIFICATE config) = None \<and>
    tokens = first # rest \<and> is_valid_token first \<and>
    int (length p) > APNS_MAX_NOTIFICATION_SIZE config"
  show "send_bulk create_payload tokens alert config payload expiration priority w
      = (Inl (APNSDataOverflow (''Notification body cannot exceed ''
                @ str_int (APNS_MAX_NOTIFICATION_SIZE config) @ '' bytes'')),
         close c (bulk_written config payload expiration [] w))"
    using a
    by (intro send_bulk_oversize
          [where create_payload = create_payload and alert = alert and payload = payload
             and first = first and rest = rest, OF p c]) simp_all
qed


text \<open>
  An invalid token between two valid ones, and the same invalid token sent alone; then a
  payload of two bytes under a maximum size of 1, sent alone and to two tokens; then an
  invalid first token with this payload, a priority of 256 and an expiration of \<open>-1\<close>.
\<close>

theorem validation_errors_and_io_witness:
  "fst (send_bulk (\<lambda>alert. [104, 105])
          [''a1a1a1a1a1a1a1a1a1a1a1a1a1a1a1a1a1a1a1a1a1a1a1a1a1a1a1a1a1a1a1a1'', ''not-a-token'',
           ''b2b2b2b2b2b2b2b2b2b2b2b2b2b2b2b2b2b2b2b2b2b2b2b2b2b2b2b2b2b2b2b2'']
          ''hi'' example_config None None 10 example_world)
   = Inl (APNSError ''Invalid token format. Expected 64 character hex string.'') \<and>
   trace (snd (send_bulk (\<lambda>alert. [104, 105])
                 [''a1a1a1a1a1a1a1a1a1a1a1a1a1a1a1a1a1a1a1a1a1a1a1a1a1a1a1a1a1a1a1a1'', ''not-a-token'',
           ''b2b2b2b2b2b2b2b2b2b2b2b2b2b2b2b2b2b2b2b2b2b2b2b2b2b2b2b2b2b2b2b2'']
                 ''hi'' example_config None None 10 example_world))
   = [Call_create_payload, Read_file ''cert.pem'',
      Connect ''gateway.push.apple.com'' 2195 ''cert.pem'',
      Write (Connection ''gateway.push.apple.com'' 2195)
        ([2, 0, 0, 0, 58, 1, 0, 32, 161, 161, 161, 161, 161, 161, 161, 161, 161, 161,
          161, 161, 161, 161, 161, 161, 161, 161, 161, 161, 161, 161, 161, 161, 161,
          161, 161, 161, 161, 161, 161, 161, 2, 0, 2, 104, 105, 3, 0, 4, 0, 0, 0, 0, 4,
          0, 4, 59, 194, 87, 0, 5, 0, 1, 10]),
      Close (Connection ''gateway.push.apple.com'' 2195)] \<and>
   fst (send (\<lambda>alert. [104, 105]) ''not-a-token'' ''hi'' example_config 0 None 10 None None
          example_world)
   = Inl (APNSError ''Invalid token format. Expected 64 character hex string.'') \<and>
   trace (snd (send (\<lambda>alert. [104, 105]) ''not-a-token'' ''hi'' example_config 0 None 10 None
                 None example_world))
   = [] \<and>
   fst (send (\<lambda>alert. [104, 105])
          ''a1a1a1a1a1a1a1a1a1a1a1a1a1a1a1a1a1a1a1a1a1a1a1a1a1a1a1a1a1a1a1a1'' ''hi''
          (example_config\<lparr>APNS_MAX_NOTIFICATION_SIZE := 1\<rparr>) 0 None 10 None None
          example_world)
   = Inl (APNSDataOverflow ''Notification body cannot exceed 1 bytes'') \<and>
   trace (snd (send (\<lambda>alert. [104, 105])
                 ''a1a1a1a1a1a1a1a1a1a1a1a1a1a1a1a1a1a1a1a1a1a1a1a1a1a1a1a1a1a1a1a1'' ''hi''
                 (example_config\<lparr>APNS_MAX_NOTIFICATION_SIZE := 1\<rparr>) 0 None 10 None None
                 example_world))
   = [Call_create_payload] \<and>
   fst (send_bulk (\<lambda>alert. [104, 105])
          [''a1a1a1a1a1a1a1a1a1a1a1a1a1a1a1a1a1a1a1a1a1a1a1a1a1a1a1a1a1a1a1a1'',
           ''b2b2b2b2b2b2b2b2b2b2b2b2b2b2b2b2b2b2b2b2b2b2b2b2b2b2b2b2b2b2b2b2'']
          ''hi'' (example_config\<lparr>APNS_MAX_NOTIFICATION_SIZE := 1\<rparr>) None None 10
          example_world)
   = Inl (APNSDataOverflow ''Notification body cannot exceed 1 bytes'') \<and>
   trace (snd (send_bulk (\<lambda>alert. [104, 105])
                 [''a1a1a1a1a1a1a1a1a1a1a1a1a1a1a1a1a1a1a1a1a1a1a1a1a1a1a1a1a1a1a1a1'',
                  ''b2b2b2b2b2b2b2b2b2b2b2b2b2b2b2b2b2b2b2b2b2b2b2b2b2b2b2b2b2b2b2b2'']
                 ''hi'' (example_config\<lparr>APNS_MAX_NOTIFICATION_SIZE := 1\<rparr>) None None 10
                 example_world))
   = [Call_create_payload, Read_file ''cert.pem'',
      Connect ''gateway.push.apple.com'' 2195 ''cert.pem'',
      Close (Connection ''gateway.push.apple.com'' 2195)] \<and>
   fst (send_bulk (\<lambda>alert. [104, 105])
          [''not-a-token'',
           ''a1a1a1a1a1a1a1a1a1a1a1a1a1a1a1a1a1a1a1a1a1a1a1a1a1a1a1a1a1a1a1a1'']
          ''hi'' (example_config\<lparr>APNS_MAX_NOTIFICATION_SIZE := 1\<rparr>) None (Some (- 1)) 256
          example_world)
   = Inl (APNSError ''Invalid token format. Expected 64 character hex string.'') \<and>
   trace (snd (send_bulk (\<lambda>alert. [104, 105])
                 [''not-a-token'',
                  ''a1a1a1a1a1a1a1a1a1a1a1a1a1a1a1a1a1a1a1a1a1a1a1a1a1a1a1a1a1a1a1a1'']
                 ''hi'' (example_config\<lparr>APNS_MAX_NOTIFICATION_SIZE := 1\<rparr>) None (Some (- 1)) 256
                 example_world))
   = [Call_create_payload, Read_file ''cert.pem'',
      Connect ''gateway.push.apple.com'' 2195 ''cert.pem'',
      Close (Connection ''gateway.push.apple.com'' 2195)]"
proof -
  let ?a = "''a1a1a1a1a1a1a1a1a1a1a1a1a1a1a1a1a1a1a1a1a1a1a1a1a1a1a1a1a1a1a1a1''"
  let ?b = "''b2b2b2b2b2b2b2b2b2b2b2b2b2b2b2b2b2b2b2b2b2b2b2b2b2b2b2b2b2b2b2b2''"
  let ?c = "Connection ''gateway.push.apple.com'' 2195"
  have v: "\<forall>token\<in>set [?a]. is_valid_token token" "\<not> is_valid_token ''not-a-token''"
    by code_simp+
  have e: "expiration_at None example_config example_world 0 = 1002592000"
    by (simp add: expiration_at_def example_config_def example_world_def)
  have range: "\<forall>i<length [?a]. 0 \<le> expiration_at None example_config example_world i
                    \<and> expiration_at None example_config example_world i < 2 ^ 32"
    by (simp add: e)
  have f0: "the_frame ?a [104, 105] 0 1002592000 10
    = [2, 0, 0, 0, 58, 1, 0, 32, 161, 161, 161, 161, 161, 161, 161, 161, 161, 161,
          161, 161, 161, 161, 161, 161, 161, 161, 161, 161, 161, 161, 161, 161, 161,
          161, 161, 161, 161, 161, 161, 161, 2, 0, 2, 104, 105, 3, 0, 4, 0, 0, 0, 0, 4,
          0, 4, 59, 194, 87, 0, 5, 0, 1, 10]"
    by code_simp
  have frames: "map (\<lambda>i. the_frame ([?a] ! i) [104, 105] (int i)
                        (expiration_at None example_config example_world i) 10)
                  [0..<length [?a]]
    = [the_frame ?a [104, 105] 0 1002592000 10]"
    by (simp add: e)
  have cfg: "APNS_CERTIFICATE example_config = ''cert.pem''"
    "APNS_HOST example_config = ''gateway.push.apple.com''"
    "APNS_PORT example_config = 2195" "APNS_MAX_NOTIFICATION_SIZE example_config = 2048"
    by (simp_all add: example_config_def)
  have wld: "unreadable example_world ''cert.pem'' = None" "trace example_world = []"
    by (simp_all add: example_world_def)
  note inst = validation_errors_and_io
         [where create_payload = "\<lambda>alert. [104, 105]" and alert = "''hi''" and payload = None
            and p = "[104, 105]" and c = ?c and config = example_config
            and token = "''not-a-token''" and ?identifier = 0 and connection = None
            and tokens = "[?a, ''not-a-token'', ?b]"
            and good = "[?a]" and bad = "''not-a-token''" and rest = "[?b]"
            and expiration = None and priority = 10 and w = example_world]
  have 1: "send (\<lambda>alert. [104, 105]) ''not-a-token'' ''hi'' example_config 0 None 10 None None
          example_world
    = (Inl (APNSError ''Invalid token format. Expected 64 character hex string.''),
       example_world)"
    using inst [THEN conjunct1] v(2) by (simp add: cfg)
  have 2: "send_bulk (\<lambda>alert. [104, 105]) [?a, ''not-a-token'', ?b] ''hi'' example_config None
          None 10 example_world
    = (Inl (APNSError ''Invalid token format. Expected 64 character hex string.''),
       close ?c (bulk_written example_config None None
                  (map (\<lambda>i. the_frame ([?a] ! i) [104, 105] (int i)
                              (expiration_at None example_config example_world i) 10)
                     [0..<length [?a]]) example_world))"
    using inst [THEN conjunct2, THEN conjunct2, THEN conjunct1] v range
    by (simp add: cfg wld)
  let ?tight = "example_config\<lparr>APNS_MAX_NOTIFICATION_SIZE := 1\<rparr>"
  have tight: "APNS_CERTIFICATE ?tight = ''cert.pem''"
    "APNS_HOST ?tight = ''gateway.push.apple.com''"
    "APNS_PORT ?tight = 2195" "APNS_MAX_NOTIFICATION_SIZE ?tight = 1"
    by (simp_all add: example_config_def)
  have one: "str_int 1 = ''1''"
    by (simp add: str_int_def str_nat.simps digit_char_def)
  note over = validation_errors_and_io
         [where create_payload = "\<lambda>alert. [104, 105]" and alert = "''hi''" and payload = None
            and p = "[104, 105]" and c = ?c and config = ?tight
            and token = ?a and ?identifier = 0 and connection = None
            and tokens = "[?a, ?b]" and first = ?a and rest = "[?b]"
            and expiration = None and priority = 10 and w = example_world]
  have 3: "send (\<lambda>alert. [104, 105]) ?a ''hi'' ?tight 0 None 10 None None example_world
    = (Inl (APNSDataOverflow ''Notification body cannot exceed 1 bytes''),
       example_world\<lparr>trace := trace example_world @ [Call_create_payload]\<rparr>)"
    using over [THEN conjunct2, THEN conjunct1] v(1)
    by (simp add: tight one)
  have 4: "send_bulk (\<lambda>alert. [104, 105]) [?a, ?b] ''hi'' ?tight None None 10 example_world
    = (Inl (APNSDataOverflow ''Notification body cannot exceed 1 bytes''),
       close ?c (bulk_written ?tight None None [] example_world))"
    using over [THEN conjunct2, THEN conjunct2, THEN conjunct2] v(1)
    by (simp add: tight one wld)
  note head = validation_errors_and_io
         [where create_payload = "\<lambda>alert. [104, 105]" and alert = "''hi''" and payload = None
            and p = "[104, 105]" and c = ?c and config = ?tight
            and tokens = "[''not-a-token'', ?a]"
            and good = "[]" and bad = "''not-a-token''" and rest = "[?a]"
            and expiration = "Some (- 1)" and priority = 256 and w = example_world]
  have 5: "send_bulk (\<lambda>alert. [104, 105]) [''not-a-token'', ?a] ''hi'' ?tight None (Some (- 1))
          256 example_world
    = (Inl (APNSError ''Invalid token format. Expected 64 character hex string.''),
       close ?c (bulk_written ?tight None (Some (- 1)) [] example_world))"
    using head [THEN conjunct2, THEN conjunct2, THEN conjunct1] v(2)
    by (simp add: tight wld)
  show ?thesis
    unfolding 1 2 3 4 5 frames f0
    by (simp add: bulk_written_def close_def log_event_def cfg tight wld)
qed

text \<open>
  A valid token and then an invalid one: when the error of the invalid token is raised,
  the connection has been opened and the frame of the first token written.
\<close>

theorem send_bulk_validation_after_io_counterexample:
  "fst (send_bulk (\<lambda>alert. [104, 105])
          [''a1a1a1a1a1a1a1a1a1a1a1a1a1a1a1a1a1a1a1a1a1a1a1a1a1a1a1a1a1a1a1a1'', ''zz'']
          ''hi'' example_config None None 10 example_world)
   = Inl (APNSError ''Invalid token format. Expected 64 character hex string.'') \<and>
   trace (snd (send_bulk (\<lambda>alert. [104, 105])
                 [''a1a1a1a1a1a1a1a1a1a1a1a1a1a1a1a1a1a1a1a1a1a1a1a1a1a1a1a1a1a1a1a1'', ''zz'']
                 ''hi'' example_config None None 10 example_world))
   = [Call_create_payload, Read_file ''cert.pem'',
      Connect ''gateway.push.apple.com'' 2195 ''cert.pem'',
      Write (Connection ''gateway.push.apple.com'' 2195)
        ([2, 0, 0, 0, 58, 1, 0, 32, 161, 161, 161, 161, 161, 161, 161, 161, 161, 161,
          161, 161, 161, 161, 161, 161, 161, 161, 161, 161, 161, 161, 161, 161, 161,
          161, 161, 161, 161, 161, 161, 161, 2, 0, 2, 104, 105, 3, 0, 4, 0, 0, 0, 0, 4,
          0, 4, 59, 194, 87, 0, 5, 0, 1, 10]),
      Close (Connection ''gateway.push.apple.com'' 2195)]"
proof -
  let ?a = "''a1a1a1a1a1a1a1a1a1a1a1a1a1a1a1a1a1a1a1a1a1a1a1a1a1a1a1a1a1a1a1a1''"
  let ?b = "''b2b2b2b2b2b2b2b2b2b2b2b2b2b2b2b2b2b2b2b2b2b2b2b2b2b2b2b2b2b2b2b2''"
  let ?c = "Connection ''gateway.push.apple.com'' 2195"
  have v: "\<forall>token\<in>set [?a]. is_valid_token token" "\<not> is_valid_token ''zz''"
    by code_simp+
  have e: "expiration_at None example_config example_world 0 = 1002592000"
    by (simp add: expiration_at_def example_config_def example_world_def)
  have range: "\<forall>i<length [?a]. 0 \<le> expiration_at None example_config example_world i
                    \<and> expiration_at None example_config example_world i < 2 ^ 32"
    by (simp add: e)
  have f0: "the_frame ?a [104, 105] 0 1002592000 10
    = [2, 0, 0, 0, 58, 1, 0, 32, 161, 161, 161, 161, 161, 161, 161, 161, 161, 161,
          161, 161, 161, 161, 161, 161, 161, 161, 161, 161, 161, 161, 161, 161, 161,
          161, 161, 161, 161, 161, 161, 161, 2, 0, 2, 104, 105, 3, 0, 4, 0, 0, 0, 0, 4,
          0, 4, 59, 194, 87, 0, 5, 0, 1, 10]"
    by code_simp
  have frames: "map (\<lambda>i. the_frame ([?a] ! i) [104, 105] (int i)
                        (expiration_at None example_config example_world i) 10)
                  [0..<length [?a]]
    = [the_frame ?a [104, 105] 0 1002592000 10]"
    by (simp add: e)
  have cfg: "APNS_CERTIFICATE example_config = ''cert.pem''"
    "APNS_HOST example_config = ''gateway.push.apple.com''"
    "APNS_PORT example_config = 2195" "APNS_MAX_NOTIFICATION_SIZE example_config = 2048"
    by (simp_all add: example_config_def)
  have wld: "unreadable example_world ''cert.pem'' = None" "trace example_world = []"
    by (simp_all add: example_world_def)
  have "send_bulk (\<lambda>alert. [104, 105]) [?a, ''zz''] ''hi'' example_config None None 10
          example_world
    = (Inl (APNSError ''Invalid token format. Expected 64 character hex string.''),
       close ?c (bulk_written example_config None None
                  (map (\<lambda>i. the_frame ([?a] ! i) [104, 105] (int i)
                              (expiration_at None example_config example_world i) 10)
                     [0..<length [?a]]) example_world))"
    using v range
    by (intro send_bulk_invalid_token
          [where create_payload = "\<lambda>alert. [104, 105]" and alert = "''hi''" and payload = None
             and good = "[?a]" and bad = "''zz''" and rest = "[]"])
       (simp_all add: cfg wld)
  then show ?thesis
    unfolding frames f0 by (simp add: bulk_written_def close_def log_event_def cfg wld)
qed

subsection \<open>Decoding a frame\<close>

lemma be_bytes_2: "be_bytes 2 n = [of_int (n div 256), of_int n]"
  by (simp add: numeral_2_eq_2)

lemma be_bytes_4:
  "be_bytes 4 n = [of_int (n div 256 div 256 div 256), of_int (n div 256 div 256),
                   of_int (n div 256), of_int n]"
  by (simp add: eval_nat_numeral)

lemma take_item_spec_item:
  assumes "item_id < 256" and "length data \<le> 65535"
  shows "take_item (spec_item item_id data @ rest) = Some (item_id, data, rest)"
proof -
  have "be_int (be_bytes 2 (int (length data))) = int (length data)"
    using assms(2) by (intro be_int_be_bytes) simp_all
  then have len: "be_int [of_int (int (length data) div 256), of_int (int (length data))]
      = int (length data)"
    by (simp only: be_bytes_2)
  have "unat (of_nat item_id :: byte) = item_id"
    using assms(1) by (simp add: unat_of_nat)
  then show ?thesis
    by (simp add: take_item_def spec_item_def be_bytes_2 len del: of_int_of_nat_eq)
qed


lemma decode_frame_bytes:
  assumes "length token_bin = 32" and "length payload \<le> 65535"
    and "0 \<le> identifier" and "identifier < 2 ^ 32"
    and "0 \<le> expiration" and "expiration < 2 ^ 32"
    and "0 \<le> priority" and "priority < 2 ^ 8"
  shows "decode_frame
           (2 # be_bytes 4 (int (3 * 5 + 32 + length payload + 4 + 4 + 1))
            @ spec_item 1 token_bin
            @ spec_item 2 payload
            @ spec_item 3 (be_bytes 4 identifier)
            @ spec_item 4 (be_bytes 4 expiration)
            @ spec_item 5 (be_bytes 1 priority))
         = Some \<lparr>n_token = token_bin, n_payload = payload, n_identifier = identifier,
                  n_expiration = expiration, n_priority = priority\<rparr>"
proof -
  let ?total = "int (3 * 5 + 32 + length payload + 4 + 4 + 1)"
  let ?body = "spec_item 1 token_bin @ spec_item 2 payload @ spec_item 3 (be_bytes 4 identifier)
            @ spec_item 4 (be_bytes 4 expiration) @ spec_item 5 (be_bytes 1 priority)"
  have total: "be_int (be_bytes 4 ?total) = ?total"
    using assms(2) by (intro be_int_be_bytes) simp_all
  have body: "length ?body = 3 * 5 + 32 + length payload + 4 + 4 + 1"
    using assms(1) by (simp add: length_spec_item length_be_bytes del: be_bytes.simps)
  have i1: "take_item ?body
    = Some (1, token_bin, spec_item 2 payload @ spec_item 3 (be_bytes 4 identifier)
            @ spec_item 4 (be_bytes 4 expiration) @ spec_item 5 (be_bytes 1 priority))"
    using assms(1) by (intro take_item_spec_item) simp_all
  have i2: "take_item (spec_item 2 payload @ spec_item 3 (be_bytes 4 identifier)
            @ spec_item 4 (be_bytes 4 expiration) @ spec_item 5 (be_bytes 1 priority))
    = Some (2, payload, spec_item 3 (be_bytes 4 identifier)
            @ spec_item 4 (be_bytes 4 expiration) @ spec_item 5 (be_bytes 1 priority))"
    using assms(2) by (intro take_item_spec_item) simp_all
  have i3: "take_item (spec_item 3 (be_bytes 4 identifier)
            @ spec_item 4 (be_bytes 4 expiration) @ spec_item 5 (be_bytes 1 priority))
    = Some (3, be_bytes 4 identifier,
            spec_item 4 (be_bytes 4 expiration) @ spec_item 5 (be_bytes 1 priority))"
    by (intro take_item_spec_item) (simp_all add: length_be_bytes del: be_bytes.simps)
  have i4: "take_item (spec_item 4 (be_bytes 4 expiration) @ spec_item 5 (be_bytes 1 priority))
    = Some (4, be_bytes 4 expiration, spec_item 5 (be_bytes 1 priority))"
    by (intro take_item_spec_item) (simp_all add: length_be_bytes del: be_bytes.simps)
  have i5: "take_item (spec_item 5 (be_bytes 1 priority))
    = Some (5, be_bytes 1 priority, [])"
    using take_item_spec_item [of 5 "be_bytes 1 priority" "[]"]
    by (simp add: length_be_bytes del: be_bytes.simps)
  have f1: "be_int (be_bytes 4 identifier) = identifier"
    using assms(3,4) by (intro be_int_be_bytes) simp_all
  have f2: "be_int (be_bytes 4 expiration) = expiration"
    using assms(5,6) by (intro be_int_be_bytes) simp_all
  have f3: "be_int (be_bytes 1 priority) = priority"
    using assms(7,8) by (intro be_int_be_bytes) simp_all
  note fields = f1 f2 f3
  have "decode_frame (2 # be_bytes 4 ?total @ ?body)
    = (if nat (be_int (be_bytes 4 ?total)) \<noteq> length ?body then None
       else (case take_item ?body of
               None \<Rightarrow> None
             | Some (i1, token_bin, r1) \<Rightarrow>
            (case take_item r1 of
               None \<Rightarrow> None
             | Some (i2, payload, r2) \<Rightarrow>
            (case take_item r2 of
               None \<Rightarrow> None
             | Some (i3, identifier, r3) \<Rightarrow>
            (case take_item r3 of
               None \<Rightarrow> None
             | Some (i4, expiration, r4) \<Rightarrow>
            (case take_item r4 of
               None \<Rightarrow> None
             | Some (i5, priority, r5) \<Rightarrow>
                 if [i1, i2, i3, i4, i5] = [1, 2, 3, 4, 5] \<and> length token_bin = 32 \<and>
                    length identifier = 4 \<and> length expiration = 4 \<and> length priority = 1 \<and>
                    r5 = []
                 then Some \<lparr>n_token = token_bin, n_payload = payload,
                             n_identifier = be_int identifier,
                             n_expiration = be_int expiration,
                             n_priority = be_int priority\<rparr>
                 else None))))))"
    unfolding be_bytes_4 [of ?total] by (simp add: decode_frame_def)
  also have "\<dots> = Some \<lparr>n_token = token_bin, n_payload = payload, n_identifier = identifier,
                  n_expiration = expiration, n_priority = priority\<rparr>"
    using assms(1)
    by (simp add: total [simplified] length_spec_item i1 i2 i3 i4 i5 fields length_be_bytes
        del: be_bytes.simps One_nat_def)
  finally show ?thesis .
qed

lemma hex_char_hex_val:
  "c \<in> set ''0123456789abcdef'' \<Longrightarrow> hex_val c = Some h \<Longrightarrow> h < 16 \<and> hex_char h = c"
  by (auto simp: hex_val_def hex_char_def)

lemma hexlify_Cons:
  "hexlify (b # bs) = hex_char (unat b div 16) # hex_char (unat b mod 16) # hexlify bs"
  by (simp add: hexlify_def)

lemma hexlify_unhexlify:
  "unhexlify t = Inr bs \<Longrightarrow> \<forall>c\<in>set t. c \<in> set ''0123456789abcdef'' \<Longrightarrow> hexlify bs = t"
proof (induction t arbitrary: bs rule: unhexlify.induct)
  case 1
  then show ?case by (simp add: hexlify_def)
next
  case (2 c)
  then show ?case by simp
next
  case (3 a b cs)
  from "3.prems"(1) obtain h l rest where
    h: "hex_val a = Some h" and l: "hex_val b = Some l" and
    rest: "unhexlify cs = Inr rest" and bs: "bs = of_nat (16 * h + l) # rest"
    by (auto split: option.splits sum.splits)
  from "3.prems"(2) have lower: "a \<in> set ''0123456789abcdef''" "b \<in> set ''0123456789abcdef''"
    "\<forall>c\<in>set cs. c \<in> set ''0123456789abcdef''"
    by simp_all
  from hex_char_hex_val [OF lower(1) h] hex_char_hex_val [OF lower(2) l]
  have digits: "h < 16" "hex_char h = a" "l < 16" "hex_char l = b"
    by simp_all
  then have "16 * h + l < 256" by simp
  then have u: "unat (of_nat (16 * h + l) :: byte) = 16 * h + l"
    unfolding unat_of_nat by simp
  have "hexlify rest = cs"
    using "3.IH" [OF refl h l rest lower(3)] .
  with digits show ?case
    unfolding bs hexlify_Cons u by simp
qed

text \<open>
  C4: for every valid token and payload (of at most 65535 bytes), and every identifier,
  expiration and priority in their ranges, \<^verbatim>\<open>pack_frame\<close> returns a frame, and decoding
  this frame gives back every field unchanged: the 32 bytes of the token, the payload,
  the identifier, the expiration and the priority. The bytes of the token are the token
  itself again in hexadecimal, when it is written in lower case.
\<close>

theorem decode_frame_pack_frame:
  assumes "is_valid_token token" and "length payload \<le> 65535"
    and "0 \<le> identifier" and "identifier < 2 ^ 32"
    and "0 \<le> expiration" and "expiration < 2 ^ 32"
    and "0 \<le> priority" and "priority < 2 ^ 8"
  shows "\<exists>frame token_bin.
      pack_frame token payload identifier expiration priority = Inr frame \<and>
      unhexlify token = Inr token_bin \<and>
      decode_frame frame
        = Some \<lparr>n_token = token_bin, n_payload = payload, n_identifier = identifier,
                 n_expiration = expiration, n_priority = priority\<rparr> \<and>
      ((\<forall>ch\<in>set token. ch \<in> set ''0123456789abcdef'') \<longrightarrow> hexlify token_bin = token)"
proof -
  from assms(1) obtain token_bin where tb: "unhexlify token = Inr token_bin" "length token_bin = 32"
    using valid_token_unhexlify by blast
  have "(\<forall>ch\<in>set token. ch \<in> set ''0123456789abcdef'') \<longrightarrow> hexlify token_bin = token"
    using hexlify_unhexlify [OF tb(1)] by blast
  with pack_frame_bytes [OF tb assms(2-)] decode_frame_bytes [OF tb(2) assms(2-)] tb(1)
  show ?thesis by blast
qed

text \<open>The token \<open>a1\<close> \<open>\<times>\<close> 32, the payload \<open>hello\<close>, identifier 7, expiration 1000, priority 10.\<close>

theorem decode_frame_pack_frame_witness:
  "is_valid_token ''a1a1a1a1a1a1a1a1a1a1a1a1a1a1a1a1a1a1a1a1a1a1a1a1a1a1a1a1a1a1a1a1'' \<and>
   (\<exists>frame. pack_frame ''a1a1a1a1a1a1a1a1a1a1a1a1a1a1a1a1a1a1a1a1a1a1a1a1a1a1a1a1a1a1a1a1''
             [104, 101, 108, 108, 111] 7 1000 10 = Inr frame \<and>
      decode_frame frame
        = Some \<lparr>n_token = replicate 32 161, n_payload = [104, 101, 108, 108, 111],
                 n_identifier = 7, n_expiration = 1000, n_priority = 10\<rparr>) \<and>
   hexlify (replicate 32 161)
     = ''a1a1a1a1a1a1a1a1a1a1a1a1a1a1a1a1a1a1a1a1a1a1a1a1a1a1a1a1a1a1a1a1''"
proof -
  let ?tok = "''a1a1a1a1a1a1a1a1a1a1a1a1a1a1a1a1a1a1a1a1a1a1a1a1a1a1a1a1a1a1a1a1''"
  have v: "is_valid_token ?tok"
    by code_simp
  have u: "unhexlify ?tok = Inr (replicate 32 161)"
    by code_simp
  have lower: "\<forall>ch\<in>set ?tok. ch \<in> set ''0123456789abcdef''"
    by code_simp
  from decode_frame_pack_frame [OF v, of "[104, 101, 108, 108, 111]" 7 1000 10]
  obtain frame token_bin where
    "pack_frame ?tok [104, 101, 108, 108, 111] 7 1000 10 = Inr frame"
    "unhexlify ?tok = Inr token_bin"
    "decode_frame frame
        = Some \<lparr>n_token = token_bin, n_payload = [104, 101, 108, 108, 111],
                 n_identifier = 7, n_expiration = 1000, n_priority = 10\<rparr>"
    "(\<forall>ch\<in>set ?tok. ch \<in> set ''0123456789abcdef'') \<longrightarrow> hexlify token_bin = ?tok"
    by auto
  with u v lower show ?thesis by auto
qed

end
